theory Spec2Isabelle
  imports Complex_Main "HOL-Library.Multiset" "HOL-Library.Sublist"
begin

section \<open>Data model (store/dashboardStore.ts, services/weatherService.ts)\<close>

text \<open>
  The numbers given to a function are finite: thresholds, readings and coordinates are
  the \<open>real\<close> values of their doubles, hour offsets and time values are \<open>int\<close>.
  What the code computes from them is a \<open>number\<close>: sums and quotients are rounded to
  doubles and can be \<open>NaN\<close> or infinite. The values \<open>null\<close> and \<open>undefined\<close> that
  an array read can yield are constructors of their own. Record fields carry a prefix,
  since the source reuses \<open>id\<close>, \<open>value\<close> and \<open>color\<close> in several interfaces.
\<close>

datatype operator = OpEq | OpLt | OpGt | OpLe | OpGe

record ColorRule =
  cr_id :: string
  cr_operator :: operator
  cr_value :: real
  cr_color :: string

section \<open>Threshold rule evaluator: WeatherService.getPolygonColor\<close>

text \<open>
  The body of the \<open>for\<close> loop over the sorted rules: the \<open>switch\<close> on the operator
  returns the rule's color when its comparison holds and otherwise falls through to the
  next rule; after the last rule the default color is returned.
\<close>

fun scan_rules :: "real \<Rightarrow> ColorRule list \<Rightarrow> string" where
  "scan_rules v [] = ''#94a3b8''"
| "scan_rules v (rule # rest) =
     (case cr_operator rule of
        OpEq \<Rightarrow> if v = cr_value rule then cr_color rule else scan_rules v rest
      | OpLt \<Rightarrow> if v < cr_value rule then cr_color rule else scan_rules v rest
      | OpGt \<Rightarrow> if v > cr_value rule then cr_color rule else scan_rules v rest
      | OpLe \<Rightarrow> if v \<le> cr_value rule then cr_color rule else scan_rules v rest
      | OpGe \<Rightarrow> if v \<ge> cr_value rule then cr_color rule else scan_rules v rest)"

text \<open>
  \<open>[...colorRules].sort((a, b) => a.value - b.value)\<close> is the stable ascending sort of
  ECMAScript, here \<^const>\<open>sort_key\<close> (insertion sort, stable) on the threshold.
\<close>

definition getPolygonColor :: "real option \<Rightarrow> ColorRule list \<Rightarrow> string" where
  "getPolygonColor v colorRules =
     (case v of
        None \<Rightarrow> ''#gray-400''
      | Some x \<Rightarrow> (let sortedRules = sort_key cr_value colorRules in scan_rules x sortedRules))"

text \<open>The operator test in the words of the specification: standard numeric comparison.\<close>

fun op_holds :: "operator \<Rightarrow> real \<Rightarrow> real \<Rightarrow> bool" where
  "op_holds OpEq v t = (v = t)"
| "op_holds OpLt v t = (v < t)"
| "op_holds OpGt v t = (v > t)"
| "op_holds OpLe v t = (v \<le> t)"
| "op_holds OpGe v t = (v \<ge> t)"

definition rule_passes :: "real \<Rightarrow> ColorRule \<Rightarrow> bool" where
  "rule_passes v r = op_holds (cr_operator r) v (cr_value r)"

definition mk_rule :: "string \<Rightarrow> operator \<Rightarrow> real \<Rightarrow> string \<Rightarrow> ColorRule" where
  "mk_rule i ope t c = \<lparr>cr_id = i, cr_operator = ope, cr_value = t, cr_color = c\<rparr>"

section \<open>Numbers and errors\<close>

text \<open>
  A JavaScript number is an IEEE 754 double: a finite value, \<open>NaN\<close> or an infinity.
  Sums and quotients are rounded to the nearest double, ties to the even significand
  (\<open>fl\<close>): the significand has 53 bits, the exponents of the normal numbers run from
  -1022 to 1023, smaller values are spaced by \<open>2^-1074\<close>, and a result that rounds
  to \<open>2^1024\<close> or more in magnitude is an infinity. The sign of a zero is not kept:
  no operation of this program tells \<open>-0\<close> from \<open>0\<close>.
\<close>

datatype number = Num real | NaN | PosInfinity | NegInfinity

definition pow2 :: "int \<Rightarrow> real" where
  "pow2 k = (if 0 \<le> k then 2 ^ nat k else 1 / 2 ^ nat (- k))"

text \<open>The greatest \<open>e\<close> from \<open>lo\<close> to \<open>hi\<close> with \<open>2^e \<le> a\<close>, or \<open>lo\<close>, by bisection.\<close>

fun exp_search :: "nat \<Rightarrow> int \<Rightarrow> int \<Rightarrow> real \<Rightarrow> int" where
  "exp_search 0 lo hi a = lo"
| "exp_search (Suc n) lo hi a =
     (let mid = (lo + hi + 1) div 2
      in if pow2 mid \<le> a then exp_search n mid hi a else exp_search n lo (mid - 1) a)"

definition binade :: "real \<Rightarrow> int" where
  "binade a = exp_search 11 (- 1022) 1024 a"

definition round_even :: "real \<Rightarrow> int" where
  "round_even x =
     (let f = \<lfloor>x\<rfloor>; d = x - of_int f
      in if d < 1 / 2 then f else if 1 / 2 < d then f + 1 else if even f then f else f + 1)"

definition fl :: "real \<Rightarrow> number" where
  "fl x =
     (if x = 0 then Num 0
      else (let a = \<bar>x\<bar>;
                ulp = pow2 (binade a - 52);
                y = of_int (round_even (a / ulp)) * ulp
            in if pow2 1024 \<le> y then (if 0 < x then PosInfinity else NegInfinity)
               else Num (if 0 < x then y else - y)))"

text \<open>\<open>a + b\<close> on numbers.\<close>

fun js_add :: "number \<Rightarrow> number \<Rightarrow> number" where
  "js_add (Num a) (Num b) = fl (a + b)"
| "js_add NaN b = NaN"
| "js_add a NaN = NaN"
| "js_add PosInfinity NegInfinity = NaN"
| "js_add NegInfinity PosInfinity = NaN"
| "js_add PosInfinity b = PosInfinity"
| "js_add NegInfinity b = NegInfinity"
| "js_add (Num a) b = b"

text \<open>\<open>x / xs.length\<close>: the divisor is an array length, a non-negative integer.\<close>

fun js_div :: "number \<Rightarrow> nat \<Rightarrow> number" where
  "js_div (Num x) n =
     (if n \<noteq> 0 then fl (x / real n)
      else if x = 0 then NaN else if 0 < x then PosInfinity else NegInfinity)"
| "js_div NaN n = NaN"
| "js_div PosInfinity n = PosInfinity"
| "js_div NegInfinity n = NegInfinity"

text \<open>
  The mean as the code computes it: the values are added from left to right, starting
  from 0, and the sum is divided by their count, every step in double arithmetic.
\<close>

definition double_mean :: "real list \<Rightarrow> number" where
  "double_mean xs = js_div (foldl js_add (Num 0) (map Num xs)) (length xs)"

text \<open>
  No rounding occurs in the mean of \<open>xs\<close>: every running sum, from \<open>acc\<close> on, and the
  quotient are doubles themselves.
\<close>

fun running_sums_exact :: "real \<Rightarrow> real list \<Rightarrow> bool" where
  "running_sums_exact acc [] = True"
| "running_sums_exact acc (x # xs) =
     (fl (acc + x) = Num (acc + x) \<and> running_sums_exact (acc + x) xs)"

definition mean_exact :: "real list \<Rightarrow> bool" where
  "mean_exact xs =
     (running_sums_exact 0 xs \<and>
      fl (sum_list xs / real (length xs)) = Num (sum_list xs / real (length xs)))"

datatype js_error = TypeError | RangeError

section \<open>Dates and their strings (the ECMAScript \<open>Date\<close> operations the code calls)\<close>

text \<open>
  A \<open>Date\<close> is its time value, the milliseconds since 1970-01-01T00:00:00Z. Local time
  is UTC plus \<open>tz\<close> milliseconds, a fixed offset of the environment (no daylight
  saving). \<open>getDate\<close>, \<open>setDate\<close>, \<open>getHours\<close> and \<open>setHours\<close> work in local time,
  \<open>toISOString\<close> in UTC, as ECMAScript defines them.
\<close>

type_synonym Date = int

definition msPerHour :: int where
  "msPerHour = 3600000"

definition msPerDay :: int where
  "msPerDay = 86400000"

text \<open>Year, month (1 to 12) and day of month of a day number (days since the epoch).\<close>

definition civil_from_days :: "int \<Rightarrow> int \<times> int \<times> int" where
  "civil_from_days days =
     (let z = days + 719468;
          era = z div 146097;
          doe = z mod 146097;
          yoe = (doe - doe div 1460 + doe div 36524 - doe div 146096) div 365;
          doy = doe - (365 * yoe + yoe div 4 - yoe div 100);
          mp = (5 * doy + 2) div 153;
          d = doy - (153 * mp + 2) div 5 + 1;
          m = (if mp < 10 then mp + 3 else mp - 9);
          y = yoe + era * 400 + (if m \<le> 2 then 1 else 0)
      in (y, m, d))"

definition getDate :: "int \<Rightarrow> Date \<Rightarrow> int" where
  "getDate tz t = (case civil_from_days ((t + tz) div msPerDay) of (y, m, d) \<Rightarrow> d)"

text \<open>
  \<open>setDate(dt)\<close> keeps the local year, month and time within the day and moves the day
  of the month to \<open>dt\<close>, carrying into the neighbouring months when \<open>dt\<close> is out of the
  month's range: the time value moves by whole days.
\<close>

definition setDate :: "int \<Rightarrow> Date \<Rightarrow> int \<Rightarrow> Date" where
  "setDate tz t dt = t + (dt - getDate tz t) * msPerDay"

definition getHours :: "int \<Rightarrow> Date \<Rightarrow> int" where
  "getHours tz t = ((t + tz) mod msPerDay) div msPerHour"

text \<open>\<open>setHours(h)\<close> replaces the local hour of the day and keeps minutes and seconds.\<close>

definition setHours :: "int \<Rightarrow> Date \<Rightarrow> int \<Rightarrow> Date" where
  "setHours tz t h = t + (h - getHours tz t) * msPerHour"

definition digit_char :: "nat \<Rightarrow> char" where
  "digit_char d = ''0123456789'' ! (d mod 10)"

fun show_nat :: "nat \<Rightarrow> string" where
  "show_nat n = (if n < 10 then [digit_char n] else show_nat (n div 10) @ [digit_char (n mod 10)])"

declare show_nat.simps [simp del]

definition padStart :: "nat \<Rightarrow> char \<Rightarrow> string \<Rightarrow> string" where
  "padStart n c s = replicate (n - length s) c @ s"

definition pad_int :: "nat \<Rightarrow> int \<Rightarrow> string" where
  "pad_int n i = padStart n (CHR ''0'') (show_nat (nat i))"

definition year_string :: "int \<Rightarrow> string" where
  "year_string y =
     (if 0 \<le> y \<and> y \<le> 9999 then pad_int 4 y
      else (if y < 0 then ''-'' else ''+'') @ pad_int 6 (abs y))"

definition toISOString :: "Date \<Rightarrow> string" where
  "toISOString t =
     (case civil_from_days (t div msPerDay) of (y, m, d) \<Rightarrow>
        (let ms = t mod msPerDay in
           year_string y @ ''-'' @ pad_int 2 m @ ''-'' @ pad_int 2 d @ ''T'' @
           pad_int 2 (ms div 3600000) @ '':'' @ pad_int 2 ((ms div 60000) mod 60) @ '':'' @
           pad_int 2 ((ms div 1000) mod 60) @ ''.'' @ pad_int 3 (ms mod 1000) @ ''Z''))"

text \<open>\<open>s.split('T')[0]\<close>: the part of \<open>s\<close> before its first \<open>T\<close>.\<close>

definition split_T_first :: "string \<Rightarrow> string" where
  "split_T_first s = takeWhile (\<lambda>c. c \<noteq> CHR ''T'') s"

text \<open>
  A date object holds a time value of at most \<open>8.64e15\<close> milliseconds in magnitude.
  Every setter and \<open>new Date(value)\<close> pass the new time value through \<open>TimeClip\<close>,
  which makes the date invalid (\<open>None\<close>) outside that range; an invalid date stays
  invalid under the setters, and \<open>toISOString\<close> raises a RangeError on it.
\<close>

definition maxTime :: int where
  "maxTime = 8640000000000000"

definition TimeClip :: "int \<Rightarrow> Date option" where
  "TimeClip t = (if \<bar>t\<bar> \<le> maxTime then Some t else None)"


text \<open>The remainder operator \<open>%\<close> on integers: the sign follows the dividend.\<close>

definition js_rem :: "int \<Rightarrow> int \<Rightarrow> int" where
  "js_rem a b = sgn a * (abs a mod abs b)"

section \<open>The store: store/dashboardStore.ts\<close>

datatype Mode = Single | Range

record TimelineState =
  mode :: Mode
  selectedHour :: int
  selectedRange :: "int \<times> int"
  baseDate :: Date

record 'v WeatherData =
  wd_polygonId :: string
  wd_timestamp :: string
  wd_value :: 'v

record BoundingBox =
  minLat :: number
  maxLat :: number
  minLng :: number
  maxLng :: number

record Polygon =
  p_id :: string
  p_points :: "(real \<times> real) list"
  p_dataSourceId :: string
  p_color :: string
  p_name :: "string option"
  p_centroid :: "number \<times> number"
  p_boundingBox :: BoundingBox

record DataSource =
  ds_id :: string
  ds_name :: string
  ds_field :: string
  ds_colorRules :: "ColorRule list"

record DashboardState =
  timeline :: TimelineState
  polygons :: "Polygon list"
  selectedPolygonId :: "string option"
  drawingMode :: bool
  dataSources :: "DataSource list"
  weatherData :: "string \<rightharpoonup> real WeatherData list"
  isLoading :: bool

definition removePolygon :: "string \<Rightarrow> DashboardState \<Rightarrow> DashboardState" where
  "removePolygon i state =
     state\<lparr>polygons := filter (\<lambda>p. p_id p \<noteq> i) (polygons state),
           selectedPolygonId :=
             (if selectedPolygonId state = Some i then None else selectedPolygonId state)\<rparr>"

definition setWeatherData ::
  "string \<Rightarrow> real WeatherData list \<Rightarrow> DashboardState \<Rightarrow> DashboardState" where
  "setWeatherData polygonId data state =
     (let newWeatherData = (weatherData state)(polygonId \<mapsto> data)
      in state\<lparr>weatherData := newWeatherData\<rparr>)"

text \<open>\<open>data.filter((d, index) => index >= startHour && index <= endHour)\<close>\<close>

definition filter_by_index :: "int \<Rightarrow> int \<Rightarrow> 'a list \<Rightarrow> 'a list" where
  "filter_by_index startHour endHour data =
     map fst (filter (\<lambda>(d, index). int index \<ge> startHour \<and> int index \<le> endHour)
                     (zip data [0..<length data]))"

text \<open>
  \<open>getPolygonCurrentValue\<close>; \<open>None\<close> is the \<open>null\<close> it returns, \<open>Inl\<close> an exception
  it raises. The statements on \<open>targetDate\<close> are kept one by one, in the source's
  order.
\<close>

definition targetDate_of :: "int \<Rightarrow> Date \<Rightarrow> int \<Rightarrow> Date option" where
  "targetDate_of tz base targetHour =
     (let targetDate = TimeClip base;
          targetDate = Option.bind targetDate
                         (\<lambda>t. TimeClip (setDate tz t (getDate tz t - 15)));
          targetDate = Option.bind targetDate
                         (\<lambda>t. TimeClip (setHours tz t (js_rem targetHour 24)));
          targetDate = Option.bind targetDate
                         (\<lambda>t. TimeClip (setDate tz t (getDate tz t + targetHour div 24)))
      in targetDate)"

definition targetTimestamp_of :: "int \<Rightarrow> Date \<Rightarrow> int \<Rightarrow> js_error + string" where
  "targetTimestamp_of tz base targetHour =
     (case targetDate_of tz base targetHour of
        None \<Rightarrow> Inl RangeError
      | Some targetDate \<Rightarrow>
          Inr (split_T_first (toISOString targetDate) @ ''T'' @
               padStart 2 (CHR ''0'') (show_nat (nat (getHours tz targetDate))) @ '':00''))"

definition getPolygonCurrentValue ::
  "int \<Rightarrow> DashboardState \<Rightarrow> string \<Rightarrow> js_error + number option" where
  "getPolygonCurrentValue tz state polygonId =
     (case weatherData state polygonId of
        None \<Rightarrow> Inr None
      | Some data \<Rightarrow>
          if length data = 0 then Inr None
          else if mode (timeline state) = Single then
            (let targetHour = selectedHour (timeline state)
             in case targetTimestamp_of tz (baseDate (timeline state)) targetHour of
                  Inl e \<Rightarrow> Inl e
                | Inr targetTimestamp \<Rightarrow>
                    (let record = find (\<lambda>d. prefix targetTimestamp (wd_timestamp d)) data
                     in Inr (case record of None \<Rightarrow> None | Some r \<Rightarrow> Some (Num (wd_value r)))))
          else
            (case selectedRange (timeline state) of (startHour, endHour) \<Rightarrow>
               (let relevantData = filter_by_index startHour endHour data
                in if length relevantData = 0 then Inr None
                   else (let sum = foldl (\<lambda>acc d. js_add acc (Num (wd_value d))) (Num 0)
                                     relevantData
                         in Inr (Some (js_div sum (length relevantData)))))))"




text \<open>The first of \<open>DEFAULT_DATA_SOURCES\<close> and the store's initial state.\<close>

definition temperature_source :: DataSource where
  "temperature_source =
     \<lparr>ds_id = ''temperature'', ds_name = ''Temperature'', ds_field = ''temperature_2m'',
      ds_colorRules =
        [mk_rule ''1'' OpLt 10 ''#1890ff'', mk_rule ''2'' OpGe 10 ''#52c41a'',
         mk_rule ''3'' OpGe 25 ''#fa8c16'', mk_rule ''4'' OpGe 35 ''#f5222d'']\<rparr>"

definition initial_state :: "Date \<Rightarrow> DataSource list \<Rightarrow> DashboardState" where
  "initial_state now sources =
     \<lparr>timeline = \<lparr>mode = Single, selectedHour = 360, selectedRange = (350, 370),
                   baseDate = now\<rparr>,
      polygons = [], selectedPolygonId = None, drawingMode = False,
      dataSources = sources, weatherData = Map.empty, isLoading = False\<rparr>"

section \<open>The weather service: services/weatherService.ts\<close>

subsection \<open>transformWeatherData\<close>

text \<open>
  What a read of the response's value array can yield at run time: a number, \<open>null\<close>
  (the archive writes it for a missing reading) or \<open>undefined\<close> (a read past the end).
\<close>

datatype jsval = JNum number | JNull | JUndefined

text \<open>
  Of the response only \<open>hourly\<close> is read: its \<open>time\<close> array (\<open>None\<close> when the object
  has none) and one array per requested field, looked up by the field's name.
\<close>

record OpenMeteoResponse =
  hourly_time :: "string list option"
  hourly :: "string \<rightharpoonup> jsval list"

definition array_get :: "jsval list \<Rightarrow> nat \<Rightarrow> jsval" where
  "array_get xs index = (if index < length xs then xs ! index else JUndefined)"

fun truthy :: "jsval \<Rightarrow> bool" where
  "truthy (JNum (Num r)) = (r \<noteq> 0)"
| "truthy (JNum NaN) = False"
| "truthy (JNum PosInfinity) = True"
| "truthy (JNum NegInfinity) = True"
| "truthy JNull = False"
| "truthy JUndefined = False"

text \<open>\<open>a || b\<close>\<close>

definition js_or :: "jsval \<Rightarrow> jsval \<Rightarrow> jsval" where
  "js_or a b = (if truthy a then a else b)"

text \<open>
  Without a time array \<open>timeArray.map\<close> raises a TypeError. When the response has no
  array for the field, \<open>valueArray\<close> is \<open>undefined\<close> and the first read
  \<open>valueArray[index]\<close> raises a TypeError; with an empty time array the callback
  never runs.
\<close>

definition transformWeatherData ::
  "string \<Rightarrow> OpenMeteoResponse \<Rightarrow> string \<Rightarrow> js_error + jsval WeatherData list" where
  "transformWeatherData polygonId response field =
     (case hourly_time response of
        None \<Rightarrow> Inl TypeError
      | Some timeArray \<Rightarrow>
          (case hourly response field of
             None \<Rightarrow> if timeArray = [] then Inr [] else Inl TypeError
           | Some valueArray \<Rightarrow>
               Inr (map (\<lambda>(timestamp, index).
                           \<lparr>wd_polygonId = polygonId, wd_timestamp = timestamp,
                            wd_value = js_or (array_get valueArray index) (JNum (Num 0))\<rparr>)
                        (zip timeArray [0..<length timeArray]))))"

subsection \<open>formatDate, getDateRange, isValidDateForAPI\<close>

definition formatDate :: "Date \<Rightarrow> string" where
  "formatDate date = split_T_first (toISOString date)"

definition getDateRange :: "int \<Rightarrow> Date \<Rightarrow> Date \<times> Date" where
  "getDateRange tz base =
     (let startDate = base;
          startDate = setDate tz startDate (getDate tz startDate - 15);
          endDate = base;
          endDate = setDate tz endDate (getDate tz endDate + 15)
      in (startDate, endDate))"

text \<open>\<open>new Date('1940-01-01')\<close>: midnight UTC of that day.\<close>

definition minDate :: Date where
  "minDate = - 946771200000"

definition isValidDateForAPI :: "Date \<Rightarrow> Date \<Rightarrow> bool" where
  "isValidDateForAPI now date =
     (let maxDate = now - 5 * 24 * 60 * 60 * 1000
      in date \<ge> minDate \<and> date \<le> maxDate)"

subsection \<open>calculateCentroid, calculateBoundingBox\<close>

definition calculateCentroid :: "(real \<times> real) list \<Rightarrow> number \<times> number" where
  "calculateCentroid points =
     (let sumLat = foldl (\<lambda>sum (lat, lng). js_add sum (Num lat)) (Num 0) points;
          sumLng = foldl (\<lambda>sum (lat, lng). js_add sum (Num lng)) (Num 0) points
      in (js_div sumLat (length points), js_div sumLng (length points)))"

text \<open>\<open>Math.min(...xs)\<close> and \<open>Math.max(...xs)\<close>: \<open>Infinity\<close> and \<open>-Infinity\<close> on no argument.\<close>

fun math_min :: "real list \<Rightarrow> number" where
  "math_min [] = PosInfinity"
| "math_min (x # xs) = (case math_min xs of Num m \<Rightarrow> Num (min x m) | _ \<Rightarrow> Num x)"

fun math_max :: "real list \<Rightarrow> number" where
  "math_max [] = NegInfinity"
| "math_max (x # xs) = (case math_max xs of Num m \<Rightarrow> Num (max x m) | _ \<Rightarrow> Num x)"

definition calculateBoundingBox :: "(real \<times> real) list \<Rightarrow> BoundingBox" where
  "calculateBoundingBox points =
     (let lats = map (\<lambda>(lat, lng). lat) points;
          lngs = map (\<lambda>(lat, lng). lng) points
      in \<lparr>minLat = math_min lats, maxLat = math_max lats,
          minLng = math_min lngs, maxLng = math_max lngs\<rparr>)"

section \<open>The paths that issue a weather fetch\<close>

text \<open>
  \<open>WeatherService.fetchWeatherData\<close> sends one HTTP GET with these query parameters
  whenever it is called; each caller is modelled by the list of requests it sends.
\<close>

record FetchRequest =
  q_latitude :: number
  q_longitude :: number
  q_start_date :: string
  q_end_date :: string
  q_hourly :: string
  q_timezone :: string

definition fetchWeatherData_request ::
  "number \<times> number \<Rightarrow> Date \<Rightarrow> Date \<Rightarrow> string \<Rightarrow> FetchRequest" where
  "fetchWeatherData_request centroid startDate endDate field =
     (case centroid of (lat, lng) \<Rightarrow>
        \<lparr>q_latitude = lat, q_longitude = lng,
         q_start_date = formatDate startDate, q_end_date = formatDate endDate,
         q_hourly = field, q_timezone = ''UTC''\<rparr>)"

text \<open>Dashboard.tsx, \<open>fetchWeatherDataForAllPolygons\<close>.\<close>

definition fetchWeatherDataForAllPolygons ::
  "int \<Rightarrow> Date \<Rightarrow> DashboardState \<Rightarrow> FetchRequest list" where
  "fetchWeatherDataForAllPolygons tz now state =
     (if length (polygons state) = 0 then []
      else case getDateRange tz (baseDate (timeline state)) of (startDate, endDate) \<Rightarrow>
        if \<not> isValidDateForAPI now startDate \<or> \<not> isValidDateForAPI now endDate then []
        else concat (map (\<lambda>polygon.
               case find (\<lambda>ds. ds_id ds = p_dataSourceId polygon) (dataSources state) of
                 None \<Rightarrow> []
               | Some dataSource \<Rightarrow>
                   [fetchWeatherData_request (p_centroid polygon) startDate endDate
                      (ds_field dataSource)])
             (polygons state)))"

text \<open>The map component, \<open>fetchWeatherDataForPolygon\<close>, called when a polygon is created.\<close>

definition fetchWeatherDataForPolygon ::
  "int \<Rightarrow> DashboardState \<Rightarrow> string \<Rightarrow> number \<times> number \<Rightarrow> string \<Rightarrow> FetchRequest list" where
  "fetchWeatherDataForPolygon tz state polygonId centroid dataSourceId =
     (case find (\<lambda>ds. ds_id ds = dataSourceId) (dataSources state) of
        None \<Rightarrow> []
      | Some dataSource \<Rightarrow>
          (case getDateRange tz (baseDate (timeline state)) of (startDate, endDate) \<Rightarrow>
             [fetchWeatherData_request centroid startDate endDate (ds_field dataSource)]))"

section \<open>Concrete inputs\<close>

text \<open>
  A base date with a time of day, 2024-05-20T13:00:00.000Z (the store sets the base
  date to the moment the application starts), a polygon on four points, and a series
  with a reading at midnight and one at 13:00 of the base day.
\<close>

definition afternoon :: Date where
  "afternoon = 1716210000000"

definition unit_square_polygon :: Polygon where
  "unit_square_polygon =
     \<lparr>p_id = ''polygon_1'', p_points = [(0, 0), (0, 2), (2, 2), (2, 0)],
      p_dataSourceId = ''temperature'', p_color = ''#1890ff'', p_name = Some ''Polygon 1'',
      p_centroid = calculateCentroid [(0, 0), (0, 2), (2, 2), (2, 0)],
      p_boundingBox = calculateBoundingBox [(0, 0), (0, 2), (2, 2), (2, 0)]\<rparr>"

definition two_point_series :: "real WeatherData list" where
  "two_point_series =
     [\<lparr>wd_polygonId = ''polygon_1'', wd_timestamp = ''2024-05-20T00:00'', wd_value = 3\<rparr>,
      \<lparr>wd_polygonId = ''polygon_1'', wd_timestamp = ''2024-05-20T13:00'', wd_value = 7\<rparr>]"

definition one_polygon_state :: DashboardState where
  "one_polygon_state =
     setWeatherData ''polygon_1'' two_point_series
       ((initial_state afternoon [temperature_source])\<lparr>polygons := [unit_square_polygon]\<rparr>)"

definition range_mode :: "int \<times> int \<Rightarrow> DashboardState \<Rightarrow> DashboardState" where
  "range_mode r state = state\<lparr>timeline := (timeline state)\<lparr>mode := Range, selectedRange := r\<rparr>\<rparr>"

definition single_mode :: "int \<Rightarrow> DashboardState \<Rightarrow> DashboardState" where
  "single_mode h state = state\<lparr>timeline := (timeline state)\<lparr>mode := Single, selectedHour := h\<rparr>\<rparr>"

text \<open>A state with no polygon that holds a series for \<open>polygon_1\<close>, and series by their values.\<close>

definition cache_state :: "Date \<Rightarrow> real WeatherData list \<Rightarrow> DashboardState" where
  "cache_state base series =
     setWeatherData ''polygon_1'' series (initial_state base [temperature_source])"

definition series_of :: "real list \<Rightarrow> real WeatherData list" where
  "series_of vs =
     map (\<lambda>v. \<lparr>wd_polygonId = ''polygon_1'', wd_timestamp = ''2024-05-20T00:00'', wd_value = v\<rparr>) vs"

text \<open>
  A series with readings at three hours of two days, for an environment eight hours
  ahead of UTC, where 2024-05-20T05:00Z is 13:00 local time.
\<close>

definition utc_plus_8 :: int where
  "utc_plus_8 = 28800000"

definition one_pm_utc_plus_8 :: Date where
  "one_pm_utc_plus_8 = 1716181200000"

definition three_hour_series :: "real WeatherData list" where
  "three_hour_series =
     [\<lparr>wd_polygonId = ''polygon_1'', wd_timestamp = ''2024-05-19T00:00'', wd_value = 3\<rparr>,
      \<lparr>wd_polygonId = ''polygon_1'', wd_timestamp = ''2024-05-19T16:00'', wd_value = 7\<rparr>,
      \<lparr>wd_polygonId = ''polygon_1'', wd_timestamp = ''2024-05-20T00:00'', wd_value = 5\<rparr>]"

section \<open>Properties of the rule evaluator\<close>

lemma scan_rules_find:
  "scan_rules v rs = (case find (rule_passes v) rs of Some r \<Rightarrow> cr_color r | None \<Rightarrow> ''#94a3b8'')"
  by (induction rs) (auto simp: rule_passes_def split: operator.splits)

lemma stable_sort_unique:
  assumes "mset S = mset R" and "sorted (map cr_value S)"
    and "\<forall>k. filter (\<lambda>r. cr_value r = k) S = filter (\<lambda>r. cr_value r = k) R"
  shows "sort_key cr_value R = S"
proof (rule properties_for_sort_key)
  show "mset S = mset R" by (rule assms(1))
  show "sorted (map cr_value S)" by (rule assms(2))
  fix k assume "k \<in> set S"
  have "filter (\<lambda>r. cr_value r = cr_value k) S = filter (\<lambda>r. cr_value r = cr_value k) R"
    using assms(3) by blast
  then show "filter (\<lambda>r. cr_value k = cr_value r) S = filter (\<lambda>r. cr_value k = cr_value r) R"
    by (simp add: eq_commute [of "cr_value k"])
qed

text \<open>
  C1. For a non-absent value the evaluator returns the color of the first passing rule
  of the stable ascending sort of the rules by threshold: whatever list \<open>S\<close> is a
  permutation of the rules, ascending by threshold and keeping the original relative
  order of rules with equal thresholds, the result is the color of the first rule of
  \<open>S\<close> whose operator test passes, or the default color when none passes; such a list
  exists (the sorted copy the code builds). For the rules \<open><10 \<rightarrow> A\<close>, \<open>>=10 \<rightarrow> B\<close>,
  \<open>>=25 \<rightarrow> C\<close> and the value 30 the result is \<open>B\<close>.
\<close>

theorem getPolygonColor_first_ascending_match:
  "(\<forall>S. mset S = mset R \<and> sorted (map cr_value S) \<and>
        (\<forall>k. filter (\<lambda>r. cr_value r = k) S = filter (\<lambda>r. cr_value r = k) R) \<longrightarrow>
        getPolygonColor (Some v) R =
          (case find (rule_passes v) S of Some r \<Rightarrow> cr_color r | None \<Rightarrow> ''#94a3b8''))
   \<and> (\<exists>S. mset S = mset R \<and> sorted (map cr_value S) \<and>
        (\<forall>k. filter (\<lambda>r. cr_value r = k) S = filter (\<lambda>r. cr_value r = k) R))
   \<and> getPolygonColor (Some 30)
        [mk_rule i1 OpLt 10 A, mk_rule i2 OpGe 10 B, mk_rule i3 OpGe 25 C] = B"
proof (intro conjI allI impI)
  fix S
  assume h: "mset S = mset R \<and> sorted (map cr_value S) \<and>
        (\<forall>k. filter (\<lambda>r. cr_value r = k) S = filter (\<lambda>r. cr_value r = k) R)"
  then have "sort_key cr_value R = S"
    by (intro stable_sort_unique) simp_all
  then show "getPolygonColor (Some v) R =
          (case find (rule_passes v) S of Some r \<Rightarrow> cr_color r | None \<Rightarrow> ''#94a3b8'')"
    by (simp add: getPolygonColor_def scan_rules_find)
next
  have "mset (sort_key cr_value R) = mset R" by simp
  moreover have "sorted (map cr_value (sort_key cr_value R))" by simp
  moreover have "\<forall>k. filter (\<lambda>r. cr_value r = k) (sort_key cr_value R)
                    = filter (\<lambda>r. cr_value r = k) R"
    by (simp add: sort_key_stable)
  ultimately show "\<exists>S. mset S = mset R \<and> sorted (map cr_value S) \<and>
        (\<forall>k. filter (\<lambda>r. cr_value r = k) S = filter (\<lambda>r. cr_value r = k) R)"
    by blast
next
  show "getPolygonColor (Some 30)
        [mk_rule i1 OpLt 10 A, mk_rule i2 OpGe 10 B, mk_rule i3 OpGe 25 C] = B"
    by (simp add: getPolygonColor_def mk_rule_def)
qed

theorem getPolygonColor_first_ascending_match_witness:
  "getPolygonColor (Some 30)
     [mk_rule ''3'' OpGe 25 ''C'', mk_rule ''1'' OpLt 10 ''A'', mk_rule ''2'' OpGe 10 ''B'']
   = ''B''"
proof -
  let ?R = "[mk_rule ''3'' OpGe 25 ''C'', mk_rule ''1'' OpLt 10 ''A'', mk_rule ''2'' OpGe 10 ''B'']"
  let ?S = "[mk_rule ''1'' OpLt 10 ''A'', mk_rule ''2'' OpGe 10 ''B'', mk_rule ''3'' OpGe 25 ''C'']"
  have p: "mset ?S = mset ?R" by (simp add: mk_rule_def)
  have s: "sorted (map cr_value ?S)" by (simp add: mk_rule_def)
  have f: "\<forall>k. filter (\<lambda>r. cr_value r = k) ?S = filter (\<lambda>r. cr_value r = k) ?R"
    by (simp add: mk_rule_def)
  have "getPolygonColor (Some 30) ?R =
          (case find (rule_passes 30) ?S of Some r \<Rightarrow> cr_color r | None \<Rightarrow> ''#94a3b8'')"
    using getPolygonColor_first_ascending_match [of ?R 30] p s f by blast
  then show ?thesis by (simp add: mk_rule_def rule_passes_def)
qed

lemma sort_key_perm_distinct:
  assumes "mset R' = mset R" and "distinct (map cr_value R)"
  shows "sort_key cr_value R' = sort_key cr_value R"
proof (rule sort_key_inj_key_eq)
  show "mset R' = mset (sort_key cr_value R)" using assms(1) by simp
  have "set R' = set R" using assms(1) by (rule mset_eq_setD)
  moreover have "inj_on cr_value (set R)" using assms(2) by (simp add: distinct_map)
  ultimately show "inj_on cr_value (set R')" by simp
  show "sorted (map cr_value (sort_key cr_value R))" by simp
qed

lemma sort_key_perm_stable:
  assumes "mset R' = mset R"
    and "\<forall>k. filter (\<lambda>r. cr_value r = k) R' = filter (\<lambda>r. cr_value r = k) R"
  shows "sort_key cr_value R' = sort_key cr_value R"
proof (rule stable_sort_unique)
  show "mset (sort_key cr_value R) = mset R'" using assms(1) by simp
  show "sorted (map cr_value (sort_key cr_value R))" by simp
  show "\<forall>k. filter (\<lambda>r. cr_value r = k) (sort_key cr_value R) = filter (\<lambda>r. cr_value r = k) R'"
    using assms(2) by (simp add: sort_key_stable)
qed

text \<open>
  C4, as stated, fails: the sort is stable, so two rules with the same threshold keep
  the order the caller gave them, and when both pass the first one given wins. With
  \<open>>=10 \<rightarrow> A\<close> and \<open><=10 \<rightarrow> B\<close> the value 10 is colored \<open>A\<close>; with the same two rules
  swapped it is colored \<open>B\<close>.
\<close>

theorem getPolygonColor_shuffle_counterexample:
  "mset [mk_rule ''2'' OpLe 10 ''B'', mk_rule ''1'' OpGe 10 ''A'']
     = mset [mk_rule ''1'' OpGe 10 ''A'', mk_rule ''2'' OpLe 10 ''B'']
   \<and> getPolygonColor (Some 10) [mk_rule ''1'' OpGe 10 ''A'', mk_rule ''2'' OpLe 10 ''B''] = ''A''
   \<and> getPolygonColor (Some 10) [mk_rule ''2'' OpLe 10 ''B'', mk_rule ''1'' OpGe 10 ''A''] = ''B''"
  by (simp add: getPolygonColor_def mk_rule_def)

lemma find_sorted_least:
  assumes "sorted (map f xs)" and "find P xs = Some r"
  shows "P r \<and> r \<in> set xs \<and> (\<forall>x \<in> set xs. P x \<longrightarrow> f r \<le> f x)"
  using assms
proof (induction xs)
  case Nil
  then show ?case by simp
next
  case (Cons a xs)
  show ?case
  proof (cases "P a")
    case True
    then have "r = a" using Cons.prems(2) by simp
    then show ?thesis using True Cons.prems(1) by auto
  next
    case False
    then have "find P xs = Some r" using Cons.prems(2) by simp
    moreover have "sorted (map f xs)" using Cons.prems(1) by simp
    ultimately have "P r \<and> r \<in> set xs \<and> (\<forall>x \<in> set xs. P x \<longrightarrow> f r \<le> f x)"
      by (rule Cons.IH [rotated])
    then show ?thesis using False by auto
  qed
qed

lemma first_match_color_perm:
  assumes perm: "mset R' = mset R"
    and agree: "\<forall>r \<in> set R. \<forall>r' \<in> set R.
        cr_value r = cr_value r' \<and> rule_passes v r \<and> rule_passes v r' \<longrightarrow> cr_color r = cr_color r'"
  shows "scan_rules v (sort_key cr_value R') = scan_rules v (sort_key cr_value R)"
proof -
  let ?S = "sort_key cr_value R" and ?S' = "sort_key cr_value R'"
  have sets: "set ?S = set R" "set ?S' = set R"
    using perm mset_eq_setD by auto
  show ?thesis
  proof (cases "find (rule_passes v) ?S")
    case None
    then have "\<forall>x \<in> set R. \<not> rule_passes v x"
      using sets(1) by (auto simp: find_None_iff)
    then have "find (rule_passes v) ?S' = None"
      using sets(2) by (auto simp: find_None_iff)
    then show ?thesis using None by (simp add: scan_rules_find)
  next
    case (Some r)
    have least: "rule_passes v r \<and> r \<in> set ?S \<and>
        (\<forall>x \<in> set ?S. rule_passes v x \<longrightarrow> cr_value r \<le> cr_value x)"
      by (rule find_sorted_least [OF _ Some]) simp
    then have "find (rule_passes v) ?S' \<noteq> None"
      using sets by (auto simp: find_None_iff)
    then obtain r' where Some': "find (rule_passes v) ?S' = Some r'"
      by blast
    have least': "rule_passes v r' \<and> r' \<in> set ?S' \<and>
        (\<forall>x \<in> set ?S'. rule_passes v x \<longrightarrow> cr_value r' \<le> cr_value x)"
      by (rule find_sorted_least [OF _ Some']) simp
    have "cr_value r \<le> cr_value r'" using least least' sets by blast
    moreover have "cr_value r' \<le> cr_value r" using least least' sets by blast
    ultimately have "cr_value r = cr_value r'" by simp
    then have "cr_color r = cr_color r'"
      using agree least least' sets by blast
    then show ?thesis using Some Some' by (simp add: scan_rules_find)
  qed
qed

text \<open>
  C4, amended. The evaluator is a function of the value and the rule list alone. Its
  result is the same for every rearrangement \<open>R'\<close> of the rules \<open>R\<close> that keeps the
  relative order of rules with equal thresholds, and for every rearrangement at all
  when any two rules of \<open>R\<close> with the same threshold that both pass the value have the
  same color (so whenever the thresholds are pairwise distinct, and for rule pairs
  such as \<open><10\<close>, \<open>>=10\<close> that never pass together). An absent value gets the same
  color under every rearrangement.
\<close>

theorem getPolygonColor_shuffle_invariant:
  "(mset R' = mset R \<and> (\<forall>k. filter (\<lambda>r. cr_value r = k) R' = filter (\<lambda>r. cr_value r = k) R)
      \<longrightarrow> getPolygonColor w R' = getPolygonColor w R)
   \<and> (mset R' = mset R \<and>
       (\<forall>r \<in> set R. \<forall>r' \<in> set R.
          cr_value r = cr_value r' \<and> rule_passes v r \<and> rule_passes v r' \<longrightarrow> cr_color r = cr_color r')
      \<longrightarrow> getPolygonColor (Some v) R' = getPolygonColor (Some v) R)
   \<and> (mset R' = mset R \<and> distinct (map cr_value R)
      \<longrightarrow> getPolygonColor w R' = getPolygonColor w R)
   \<and> getPolygonColor None R' = getPolygonColor None R"
proof (intro conjI impI)
  assume "mset R' = mset R \<and> (\<forall>k. filter (\<lambda>r. cr_value r = k) R' = filter (\<lambda>r. cr_value r = k) R)"
  then have "sort_key cr_value R' = sort_key cr_value R"
    by (intro sort_key_perm_stable) simp_all
  then show "getPolygonColor w R' = getPolygonColor w R"
    by (simp add: getPolygonColor_def split: option.split)
next
  assume "mset R' = mset R \<and> distinct (map cr_value R)"
  then have "sort_key cr_value R' = sort_key cr_value R"
    by (intro sort_key_perm_distinct) simp_all
  then show "getPolygonColor w R' = getPolygonColor w R"
    by (simp add: getPolygonColor_def split: option.split)
next
  assume h: "mset R' = mset R \<and>
       (\<forall>r \<in> set R. \<forall>r' \<in> set R.
          cr_value r = cr_value r' \<and> rule_passes v r \<and> rule_passes v r' \<longrightarrow> cr_color r = cr_color r')"
  have "scan_rules v (sort_key cr_value R') = scan_rules v (sort_key cr_value R)"
    by (rule first_match_color_perm) (use h in blast)+
  then show "getPolygonColor (Some v) R' = getPolygonColor (Some v) R"
    by (simp add: getPolygonColor_def)
next
  show "getPolygonColor None R' = getPolygonColor None R"
    by (simp add: getPolygonColor_def)
qed

theorem getPolygonColor_shuffle_invariant_witness:
  "getPolygonColor (Some 30)
     [mk_rule ''3'' OpGe 25 ''C'', mk_rule ''2'' OpGe 10 ''B'', mk_rule ''1'' OpLt 10 ''A'']
   = getPolygonColor (Some 30)
     [mk_rule ''1'' OpLt 10 ''A'', mk_rule ''2'' OpGe 10 ''B'', mk_rule ''3'' OpGe 25 ''C'']"
proof -
  let ?R = "[mk_rule ''1'' OpLt 10 ''A'', mk_rule ''2'' OpGe 10 ''B'', mk_rule ''3'' OpGe 25 ''C'']"
  let ?R' = "[mk_rule ''3'' OpGe 25 ''C'', mk_rule ''2'' OpGe 10 ''B'', mk_rule ''1'' OpLt 10 ''A'']"
  have p: "mset ?R' = mset ?R" by (simp add: mk_rule_def)
  have d: "\<forall>r \<in> set ?R. \<forall>r' \<in> set ?R.
      cr_value r = cr_value r' \<and> rule_passes 30 r \<and> rule_passes 30 r' \<longrightarrow> cr_color r = cr_color r'"
    by (simp add: mk_rule_def rule_passes_def)
  have "mset ?R' = mset ?R \<and> (\<forall>r \<in> set ?R. \<forall>r' \<in> set ?R.
      cr_value r = cr_value r' \<and> rule_passes 30 r \<and> rule_passes 30 r' \<longrightarrow> cr_color r = cr_color r')"
    using p d by (rule conjI)
  then show ?thesis
    by (rule getPolygonColor_shuffle_invariant [of ?R' ?R _ 30,
          THEN conjunct2, THEN conjunct1, THEN mp])
qed

lemma scan_rules_cases:
  "scan_rules v rs = ''#94a3b8'' \<and> \<not> (\<exists>r \<in> set rs. rule_passes v r)
   \<or> (\<exists>r \<in> set rs. rule_passes v r \<and> scan_rules v rs = cr_color r)"
  by (induction rs) (auto simp: rule_passes_def split: operator.splits)

lemma getPolygonColor_range:
  "getPolygonColor v R \<in> {''#gray-400'', ''#94a3b8''} \<union> cr_color ` set R"
proof (cases v)
  case None then show ?thesis by (simp add: getPolygonColor_def)
next
  case (Some x)
  show ?thesis using scan_rules_cases [of x "sort_key cr_value R"] Some
    by (auto simp: getPolygonColor_def)
qed

lemma getPolygonColor_no_match:
  "\<not> (\<exists>r \<in> set R. rule_passes v r) \<Longrightarrow> getPolygonColor (Some v) R = ''#94a3b8''"
  using scan_rules_cases [of v "sort_key cr_value R"] by (auto simp: getPolygonColor_def)

text \<open>
  C6, as stated, fails: a rule's color is any string the user picks, and nothing keeps
  it apart from the two fixed colors. With the single rule \<open>>=0\<close> colored \<open>#94a3b8\<close>,
  the value \<open>-1\<close> matches no rule and is given the default color, which is that rule's
  color; a rule colored \<open>#gray-400\<close> coincides with the "no data" color in the same way.
\<close>

theorem getPolygonColor_distinct_colors_counterexample:
  "\<not> rule_passes (- 1) (mk_rule ''1'' OpGe 0 ''#94a3b8'')
   \<and> getPolygonColor (Some (- 1)) [mk_rule ''1'' OpGe 0 ''#94a3b8'']
       = cr_color (mk_rule ''1'' OpGe 0 ''#94a3b8'')
   \<and> getPolygonColor None [mk_rule ''1'' OpGe 0 ''#gray-400'']
       = cr_color (mk_rule ''1'' OpGe 0 ''#gray-400'')"
  by (simp add: getPolygonColor_def mk_rule_def rule_passes_def)

text \<open>
  C6, amended. For every rule set the absent value is given the fixed color
  \<open>#gray-400\<close>, and a value that matches no rule is given the fixed color \<open>#94a3b8\<close>;
  the two fixed colors differ from each other. They differ from every rule color of
  the rule set whenever no rule of the set uses one of them.
\<close>

theorem getPolygonColor_fixed_colors:
  "getPolygonColor None R = ''#gray-400''
   \<and> ((\<forall>r \<in> set R. \<not> rule_passes v r) \<longrightarrow> getPolygonColor (Some v) R = ''#94a3b8'')
   \<and> ''#gray-400'' \<noteq> ''#94a3b8''
   \<and> ((\<forall>r \<in> set R. cr_color r \<noteq> ''#gray-400'' \<and> cr_color r \<noteq> ''#94a3b8'') \<longrightarrow>
        (\<forall>r \<in> set R. getPolygonColor None R \<noteq> cr_color r) \<and>
        ((\<forall>r \<in> set R. \<not> rule_passes v r) \<longrightarrow>
           (\<forall>r \<in> set R. getPolygonColor (Some v) R \<noteq> cr_color r)))"
proof (intro conjI impI)
  show "getPolygonColor None R = ''#gray-400''" by (simp add: getPolygonColor_def)
  show "''#gray-400'' \<noteq> ''#94a3b8''" by simp
  show "getPolygonColor (Some v) R = ''#94a3b8''" if "\<forall>r \<in> set R. \<not> rule_passes v r"
    using that by (intro getPolygonColor_no_match) blast
  show "\<forall>r \<in> set R. getPolygonColor None R \<noteq> cr_color r"
    if "\<forall>r \<in> set R. cr_color r \<noteq> ''#gray-400'' \<and> cr_color r \<noteq> ''#94a3b8''"
    using that by (auto simp: getPolygonColor_def)
  show "\<forall>r \<in> set R. getPolygonColor (Some v) R \<noteq> cr_color r"
    if "\<forall>r \<in> set R. cr_color r \<noteq> ''#gray-400'' \<and> cr_color r \<noteq> ''#94a3b8''"
      and "\<forall>r \<in> set R. \<not> rule_passes v r"
  proof -
    have "getPolygonColor (Some v) R = ''#94a3b8''"
      using that(2) by (intro getPolygonColor_no_match) blast
    then show ?thesis using that(1) by metis
  qed
qed

theorem getPolygonColor_fixed_colors_witness:
  "getPolygonColor None [mk_rule ''1'' OpGe 0 ''#52c41a''] = ''#gray-400''
   \<and> getPolygonColor (Some (- 1)) [mk_rule ''1'' OpGe 0 ''#52c41a''] = ''#94a3b8''
   \<and> getPolygonColor (Some (- 1)) [mk_rule ''1'' OpGe 0 ''#52c41a'']
       \<noteq> cr_color (mk_rule ''1'' OpGe 0 ''#52c41a'')
   \<and> getPolygonColor None [mk_rule ''1'' OpGe 0 ''#52c41a'']
       \<noteq> cr_color (mk_rule ''1'' OpGe 0 ''#52c41a'')"
proof -
  let ?R = "[mk_rule ''1'' OpGe 0 ''#52c41a'']"
  have n: "\<forall>r \<in> set ?R. \<not> rule_passes (- 1) r"
    by (simp add: mk_rule_def rule_passes_def)
  have c: "\<forall>r \<in> set ?R. cr_color r \<noteq> ''#gray-400'' \<and> cr_color r \<noteq> ''#94a3b8''"
    by (simp add: mk_rule_def)
  note t = getPolygonColor_fixed_colors [of ?R "- 1"]
  have a: "getPolygonColor None ?R = ''#gray-400''"
    using t by (rule conjunct1)
  have b: "getPolygonColor (Some (- 1)) ?R = ''#94a3b8''"
    using t n by blast
  have "(\<forall>r \<in> set ?R. getPolygonColor None ?R \<noteq> cr_color r) \<and>
        (\<forall>r \<in> set ?R. getPolygonColor (Some (- 1)) ?R \<noteq> cr_color r)"
    using t n c by blast
  then show ?thesis using a b by simp
qed

section \<open>Properties of double arithmetic\<close>

lemma exp_search_numeral:
  "exp_search (numeral k) lo hi a =
     (let mid = (lo + hi + 1) div 2
      in if pow2 mid \<le> a then exp_search (pred_numeral k) mid hi a
         else exp_search (pred_numeral k) lo (mid - 1) a)"
  by (simp add: numeral_eq_Suc)

lemma fl_pos:
  assumes "0 < x" and "binade x = e" and "round_even (x / pow2 (e - 52)) = m"
    and "of_int m * pow2 (e - 52) < pow2 1024"
  shows "fl x = Num (of_int m * pow2 (e - 52))"
  using assms by (simp add: fl_def Let_def)

lemma fl_0: "fl 0 = Num 0"
  by (simp add: fl_def)

lemma fl_1: "fl (1) = Num (1)"
proof -
  have "fl (1) = Num (of_int 4503599627370496 * pow2 (0 - 52))"
    by (rule fl_pos) (simp_all add: binade_def exp_search_numeral pow2_def round_even_def Let_def)
  then show ?thesis by (simp add: pow2_def)
qed

lemma fl_2: "fl (2) = Num (2)"
proof -
  have "fl (2) = Num (of_int 4503599627370496 * pow2 (1 - 52))"
    by (rule fl_pos) (simp_all add: binade_def exp_search_numeral pow2_def round_even_def Let_def)
  then show ?thesis by (simp add: pow2_def)
qed

lemma fl_3: "fl (3) = Num (3)"
proof -
  have "fl (3) = Num (of_int 6755399441055744 * pow2 (1 - 52))"
    by (rule fl_pos) (simp_all add: binade_def exp_search_numeral pow2_def round_even_def Let_def)
  then show ?thesis by (simp add: pow2_def)
qed

lemma fl_4: "fl (4) = Num (4)"
proof -
  have "fl (4) = Num (of_int 4503599627370496 * pow2 (2 - 52))"
    by (rule fl_pos) (simp_all add: binade_def exp_search_numeral pow2_def round_even_def Let_def)
  then show ?thesis by (simp add: pow2_def)
qed

lemma fl_5: "fl (5) = Num (5)"
proof -
  have "fl (5) = Num (of_int 5629499534213120 * pow2 (2 - 52))"
    by (rule fl_pos) (simp_all add: binade_def exp_search_numeral pow2_def round_even_def Let_def)
  then show ?thesis by (simp add: pow2_def)
qed

lemma fl_6: "fl (6) = Num (6)"
proof -
  have "fl (6) = Num (of_int 6755399441055744 * pow2 (2 - 52))"
    by (rule fl_pos) (simp_all add: binade_def exp_search_numeral pow2_def round_even_def Let_def)
  then show ?thesis by (simp add: pow2_def)
qed

lemma fl_9: "fl (9) = Num (9)"
proof -
  have "fl (9) = Num (of_int 5066549580791808 * pow2 (3 - 52))"
    by (rule fl_pos) (simp_all add: binade_def exp_search_numeral pow2_def round_even_def Let_def)
  then show ?thesis by (simp add: pow2_def)
qed

lemma fl_12: "fl (12) = Num (12)"
proof -
  have "fl (12) = Num (of_int 6755399441055744 * pow2 (3 - 52))"
    by (rule fl_pos) (simp_all add: binade_def exp_search_numeral pow2_def round_even_def Let_def)
  then show ?thesis by (simp add: pow2_def)
qed

lemma fl_21: "fl (21) = Num (21)"
proof -
  have "fl (21) = Num (of_int 5910974510923776 * pow2 (4 - 52))"
    by (rule fl_pos) (simp_all add: binade_def exp_search_numeral pow2_def round_even_def Let_def)
  then show ?thesis by (simp add: pow2_def)
qed

lemma fl_two_thirds: "fl (2 / 3) = Num (6004799503160661 / 9007199254740992)"
proof -
  have "fl (2 / 3) = Num (of_int 6004799503160661 * pow2 (- 1 - 52))"
    by (rule fl_pos) (simp_all add: binade_def exp_search_numeral pow2_def round_even_def Let_def)
  then show ?thesis by (simp add: pow2_def)
qed

lemma foldl_js_add_exact:
  "running_sums_exact acc xs \<Longrightarrow> foldl js_add (Num acc) (map Num xs) = Num (acc + sum_list xs)"
  by (induction xs arbitrary: acc) (auto simp: add.assoc)

lemma double_mean_exact:
  assumes "mean_exact xs" and "xs \<noteq> []"
  shows "double_mean xs = Num (sum_list xs / real (length xs))"
proof -
  have "foldl js_add (Num 0) (map Num xs) = Num (0 + sum_list xs)"
    using assms(1) by (intro foldl_js_add_exact) (simp add: mean_exact_def)
  then show ?thesis
    using assms by (simp add: double_mean_def mean_exact_def)
qed

lemma foldl_lat: "foldl (\<lambda>sum (lat, lng). js_add sum (Num lat)) a ps = foldl js_add a (map Num (map fst ps))"
  by (induction ps arbitrary: a) (auto simp: case_prod_beta)

lemma foldl_lng: "foldl (\<lambda>sum (lat, lng). js_add sum (Num lng)) a ps = foldl js_add a (map Num (map snd ps))"
  by (induction ps arbitrary: a) (auto simp: case_prod_beta)

lemma foldl_values:
  "foldl (\<lambda>acc d. js_add acc (Num (wd_value d))) a ds = foldl js_add a (map Num (map wd_value ds))"
  by (induction ds arbitrary: a) auto

lemma calculateCentroid_double_mean:
  "calculateCentroid points = (double_mean (map fst points), double_mean (map snd points))"
  by (simp add: calculateCentroid_def double_mean_def foldl_lat foldl_lng)

text \<open>
  Three checks of \<open>fl\<close> against the doubles of the language: \<open>0.1 + 0.2\<close> is
  \<open>0.30000000000000004\<close>, the largest power of two is a double, and twice that value
  is \<open>Infinity\<close>, also as a sum of latitudes.
\<close>

lemma fl_2_1023: "fl (2 ^ 1023) = Num (2 ^ 1023)"
proof -
  have "fl (2 ^ 1023) = Num (of_int 4503599627370496 * pow2 (1023 - 52))"
    by (rule fl_pos) (simp_all add: binade_def exp_search_numeral pow2_def round_even_def Let_def)
  then show ?thesis by (simp add: pow2_def)
qed

lemma fl_2_1024: "fl (2 ^ 1023 + 2 ^ 1023) = PosInfinity"
proof -
  have b: "binade \<bar>2 ^ 1023 + 2 ^ 1023\<bar> = 1024"
    by (simp add: binade_def exp_search_numeral pow2_def Let_def)
  have r: "round_even (\<bar>2 ^ 1023 + 2 ^ 1023\<bar> / pow2 (1024 - 52)) = 4503599627370496"
    by (simp add: pow2_def round_even_def Let_def)
  have "pow2 1024 \<le> of_int 4503599627370496 * pow2 (1024 - 52)"
    by (simp add: pow2_def)
  moreover have "(2 ^ 1023 + 2 ^ 1023 :: real) \<noteq> 0" by simp
  ultimately show ?thesis
    unfolding fl_def Let_def b r by simp
qed

lemma sum_overflows_to_infinity:
  "calculateCentroid [(2 ^ 1023, 0), (2 ^ 1023, 0)] = (PosInfinity, Num 0)"
proof -
  have "fl (2 * 2 ^ 1023) = PosInfinity"
    using fl_2_1024 by simp
  then show ?thesis
    by (simp add: calculateCentroid_def fl_0 fl_2_1023 del: power_numeral)
qed
lemma tenth_plus_fifth:
  "js_add (Num (3602879701896397 / 36028797018963968)) (Num (3602879701896397 / 18014398509481984))
   = Num (1351079888211149 / 4503599627370496)
   \<and> (1351079888211149 / 4503599627370496 :: real)
       \<noteq> 3602879701896397 / 36028797018963968 + 3602879701896397 / 18014398509481984"
proof -
  have "fl (3602879701896397 / 36028797018963968 + 3602879701896397 / 18014398509481984)
        = Num (of_int 5404319552844596 * pow2 (- 2 - 52))"
    by (rule fl_pos) (simp_all add: binade_def exp_search_numeral pow2_def round_even_def Let_def)
  then show ?thesis by (simp add: pow2_def)
qed

section \<open>Properties of the value resolver\<close>

lemma filter_zip_upt:
  "map fst (filter (\<lambda>(d, index). int index \<ge> a \<and> int index \<le> b) (zip data [k..<k + length data]))
   = take (nat (b + 1) - max (nat a) k) (drop (nat a - k) data)"
proof (induction data arbitrary: k)
  case Nil
  then show ?case by simp
next
  case (Cons x xs)
  let ?P = "\<lambda>(d :: 'a, index). int index \<ge> a \<and> int index \<le> b"
  have u: "[k..<k + length (x # xs)] = k # [Suc k..<Suc k + length xs]"
    by (simp add: upt_conv_Cons del: upt_Suc)
  have ih: "map fst (filter ?P (zip xs [Suc k..<Suc k + length xs]))
            = take (nat (b + 1) - max (nat a) (Suc k)) (drop (nat a - Suc k) xs)"
    by (rule Cons.IH)
  consider (inside) "a \<le> int k" "int k \<le> b" | (before) "\<not> a \<le> int k"
    | (after) "a \<le> int k" "\<not> int k \<le> b"
    by blast
  then show ?case
  proof cases
    case inside
    have 1: "nat a - k = 0" "nat a - Suc k = 0" "max (nat a) k = k" "max (nat a) (Suc k) = Suc k"
      using inside by auto
    have 2: "nat (b + 1) - k = Suc (nat (b + 1) - Suc k)"
      using inside by auto
    show ?thesis
      unfolding u using ih inside by (simp add: 1 2 del: upt_Suc)
  next
    case before
    have 1: "nat a - k = Suc (nat a - Suc k)" "max (nat a) k = nat a"
      "max (nat a) (Suc k) = nat a"
      using before by auto
    show ?thesis
      unfolding u using ih before by (simp add: 1 del: upt_Suc)
  next
    case after
    have 1: "nat (b + 1) - max (nat a) k = 0" "nat (b + 1) - max (nat a) (Suc k) = 0"
      using after by auto
    show ?thesis
      unfolding u using ih after by (simp add: 1 del: upt_Suc)
  qed
qed

lemma filter_by_index_take_drop:
  "filter_by_index a b data = take (nat (b + 1) - nat a) (drop (nat a) data)"
  using filter_zip_upt [of a b data 0] by (simp add: filter_by_index_def)

lemma take_drop_positions:
  "take (n - m) (drop m xs) = map ((!) xs) [m..<min n (length xs)]"
proof (rule nth_equalityI)
  show "length (take (n - m) (drop m xs)) = length (map ((!) xs) [m..<min n (length xs)])"
    by auto
  fix i assume "i < length (take (n - m) (drop m xs))"
  then have b: "i < n - m" "m + i < length xs"
    by auto
  then have c: "i < min n (length xs) - m"
    by simp
  have "take (n - m) (drop m xs) ! i = xs ! (m + i)"
    using b by simp
  moreover have "map ((!) xs) [m..<min n (length xs)] ! i = xs ! (m + i)"
    by (rule nth_map_upt [OF c])
  ultimately show "take (n - m) (drop m xs) ! i = map ((!) xs) [m..<min n (length xs)] ! i"
    by simp
qed


lemma range_mode_value:
  assumes "mode (timeline s) = Range" and "weatherData s pid = Some series" and "series \<noteq> []"
    and "selectedRange (timeline s) = (a, b)"
  shows "getPolygonCurrentValue tz s pid =
        Inr (let slice = map ((!) series) [nat a..<min (nat (b + 1)) (length series)]
             in if slice = [] then None else Some (double_mean (map wd_value slice)))"
proof -
  have "filter_by_index a b series = map ((!) series) [nat a..<min (nat (b + 1)) (length series)]"
    by (simp only: filter_by_index_take_drop take_drop_positions)
  then show ?thesis
    using assms by (simp add: getPolygonCurrentValue_def foldl_values double_mean_def Let_def)
qed

text \<open>
  C3, as stated, fails: the code adds and divides doubles, and each step rounds. The
  series with the readings 1, 1, 0 and the range \<open>(0, 2)\<close> gives
  \<open>6004799503160661 / 2^53\<close> (printed \<open>0.6666666666666666\<close>), not the arithmetic
  mean \<open>2/3\<close>.
\<close>

theorem range_mean_rounding_counterexample:
  "getPolygonCurrentValue 0 (range_mode (0, 2) (cache_state afternoon (series_of [1, 1, 0])))
     ''polygon_1'' = Inr (Some (Num (6004799503160661 / 9007199254740992)))
   \<and> (6004799503160661 / 9007199254740992 :: real) \<noteq> (1 + 1 + 0) / 3"
  by (simp add: getPolygonCurrentValue_def range_mode_def cache_state_def setWeatherData_def
        initial_state_def series_of_def filter_by_index_def upt_rec
        fl_0 fl_1 fl_2 fl_two_thirds)

text \<open>
  C3, amended. In range mode, on a non-empty series, the resolver reads the range
  \<open>(a, b)\<close> as positions in the series: the slice holds the entries at the positions
  from \<open>a\<close> to \<open>b\<close> inclusive that exist in the array, and the result is absent when
  the slice is empty. Otherwise it is the mean of the slice's values in double
  arithmetic: they are added from left to right, starting from 0, and the sum is
  divided by their count, each step rounded to the nearest double. It is the exact
  arithmetic mean whenever no step rounds. On a series of 720 points with the range
  \<open>(350, 370)\<close> it is that mean of the 21 entries at the positions 350 to 370.
\<close>

theorem getPolygonCurrentValue_range_mean:
  "(mode (timeline s) = Range \<and> weatherData s pid = Some series \<and> series \<noteq> [] \<and>
      selectedRange (timeline s) = (a, b) \<longrightarrow>
      getPolygonCurrentValue tz s pid =
        Inr (let slice = map ((!) series) [nat a..<min (nat (b + 1)) (length series)]
             in if slice = [] then None else Some (double_mean (map wd_value slice))))
   \<and> (mode (timeline s) = Range \<and> weatherData s pid = Some series \<and> series \<noteq> [] \<and>
      selectedRange (timeline s) = (a, b) \<and>
      vs = map (\<lambda>i. wd_value (series ! i)) [nat a..<min (nat (b + 1)) (length series)] \<and>
      vs \<noteq> [] \<and> mean_exact vs \<longrightarrow>
      getPolygonCurrentValue tz s pid = Inr (Some (Num (sum_list vs / real (length vs)))))
   \<and> (mode (timeline s) = Range \<and> weatherData s pid = Some series \<and> length series = 720 \<and>
      selectedRange (timeline s) = (350, 370) \<longrightarrow>
      length [350..<371::nat] = 21 \<and>
      getPolygonCurrentValue tz s pid =
        Inr (Some (double_mean (map (\<lambda>i. wd_value (series ! i)) [350..<371]))))"
proof (intro conjI impI)
  assume h: "mode (timeline s) = Range \<and> weatherData s pid = Some series \<and> series \<noteq> [] \<and>
      selectedRange (timeline s) = (a, b)"
  show "getPolygonCurrentValue tz s pid =
        Inr (let slice = map ((!) series) [nat a..<min (nat (b + 1)) (length series)]
             in if slice = [] then None else Some (double_mean (map wd_value slice)))"
    by (rule range_mode_value) (use h in simp_all)
next
  assume h: "mode (timeline s) = Range \<and> weatherData s pid = Some series \<and> series \<noteq> [] \<and>
      selectedRange (timeline s) = (a, b) \<and>
      vs = map (\<lambda>i. wd_value (series ! i)) [nat a..<min (nat (b + 1)) (length series)] \<and>
      vs \<noteq> [] \<and> mean_exact vs"
  let ?idx = "[nat a..<min (nat (b + 1)) (length series)]"
  have r: "getPolygonCurrentValue tz s pid =
        Inr (let slice = map ((!) series) ?idx
             in if slice = [] then None else Some (double_mean (map wd_value slice)))"
    by (rule range_mode_value) (use h in simp_all)
  have ve: "vs = map (\<lambda>i. wd_value (series ! i)) ?idx" using h by blast
  have vne: "vs \<noteq> []" using h by blast
  have v: "map wd_value (map ((!) series) ?idx) = vs"
    unfolding ve by (simp only: map_map comp_def)
  have n: "map ((!) series) ?idx \<noteq> []"
    using vne unfolding ve by auto
  have "getPolygonCurrentValue tz s pid = Inr (Some (double_mean vs))"
    using r n v by (simp only: Let_def if_False)
  moreover have "double_mean vs = Num (sum_list vs / real (length vs))"
  proof (rule double_mean_exact)
    show "mean_exact vs" using h by blast
    show "vs \<noteq> []" using h by blast
  qed
  ultimately show "getPolygonCurrentValue tz s pid = Inr (Some (Num (sum_list vs / real (length vs))))"
    by simp
next
  assume h: "mode (timeline s) = Range \<and> weatherData s pid = Some series \<and> length series = 720 \<and>
      selectedRange (timeline s) = (350, 370)"
  show "length [350..<371::nat] = 21" by simp
  have ne: "series \<noteq> []" using h by auto
  have r0: "getPolygonCurrentValue tz s pid =
        Inr (let slice = map ((!) series) [nat 350..<min (nat (370 + 1)) (length series)]
             in if slice = [] then None else Some (double_mean (map wd_value slice)))"
    by (rule range_mode_value) (use h ne in simp_all)
  have e: "[nat 350..<min (nat (370 + 1)) (length series)] = [350..<371]"
    using h by simp
  have r: "getPolygonCurrentValue tz s pid =
        Inr (let slice = map ((!) series) [350..<371]
             in if slice = [] then None else Some (double_mean (map wd_value slice)))"
    using r0 unfolding e .
  have l: "length (map ((!) series) [350..<371]) = 21"
    by simp
  have n: "map ((!) series) [350..<371] \<noteq> []"
  proof
    assume "map ((!) series) [350..<371] = []"
    then have "length (map ((!) series) [350..<371]) = 0" by (simp only: list.size)
    with l show False by simp
  qed
  have m: "map wd_value (map ((!) series) [350..<371])
           = map (\<lambda>i. wd_value (series ! i)) [350..<371]"
    by (simp only: map_map comp_def)
  show "getPolygonCurrentValue tz s pid =
        Inr (Some (double_mean (map (\<lambda>i. wd_value (series ! i)) [350..<371])))"
    using r n by (simp only: Let_def if_False m)
qed

theorem getPolygonCurrentValue_range_mean_witness:
  "getPolygonCurrentValue 0
     (range_mode (1, 3) (cache_state afternoon (series_of [10, 1, 2, 6, 40]))) ''polygon_1''
   = Inr (Some (Num 3))
   \<and> getPolygonCurrentValue 0
        (range_mode (350, 370)
           (cache_state afternoon (series_of (map (\<lambda>i. if i = 360 then 21 else 0) [0..<720]))))
        ''polygon_1'' = Inr (Some (Num 1))"
proof (rule conjI)
  let ?series = "series_of [10, 1, 2, 6, 40]"
  let ?s = "range_mode (1, 3) (cache_state afternoon ?series)"
  have h: "mode (timeline ?s) = Range \<and> weatherData ?s ''polygon_1'' = Some ?series \<and>
      ?series \<noteq> [] \<and> selectedRange (timeline ?s) = (1, 3) \<and>
      [1, 2, 6] = map (\<lambda>i. wd_value (?series ! i)) [nat 1..<min (nat (3 + 1)) (length ?series)] \<and>
      [1, 2, 6 :: real] \<noteq> [] \<and> mean_exact [1, 2, 6]"
    by (simp add: range_mode_def cache_state_def setWeatherData_def series_of_def upt_rec
          mean_exact_def fl_1 fl_3 fl_9)
  have "getPolygonCurrentValue 0 ?s ''polygon_1''
        = Inr (Some (Num (sum_list [1, 2, 6] / real (length [1, 2, 6 :: real]))))"
    using getPolygonCurrentValue_range_mean [of ?s "''polygon_1''" ?series 1 3 0 "[1, 2, 6]"] h by blast
  then show "getPolygonCurrentValue 0 ?s ''polygon_1'' = Inr (Some (Num 3))"
    by simp
next
  let ?series = "series_of (map (\<lambda>i. if i = 360 then 21 else 0) [0..<720])"
  let ?s = "range_mode (350, 370) (cache_state afternoon ?series)"
  have h: "mode (timeline ?s) = Range \<and> weatherData ?s ''polygon_1'' = Some ?series \<and>
      length ?series = 720 \<and> selectedRange (timeline ?s) = (350, 370)"
    by (simp add: range_mode_def cache_state_def setWeatherData_def series_of_def)
  have r: "getPolygonCurrentValue 0 ?s ''polygon_1'' =
        Inr (Some (double_mean (map (\<lambda>i. wd_value (?series ! i)) [350..<371])))"
    using getPolygonCurrentValue_range_mean [of ?s "''polygon_1''" ?series _ _ 0] h by blast
  have v: "map (\<lambda>i. wd_value (?series ! i)) [350..<371]
           = map (\<lambda>i. if i = 360 then 21 else 0) [350..<371::nat]"
    by (rule map_cong) (auto simp: series_of_def)
  have "double_mean (map (\<lambda>i. if i = 360 then 21 else 0) [350..<371::nat]) = Num 1"
    by (simp add: double_mean_def upt_rec fl_0 fl_21 fl_1)
  then show "getPolygonCurrentValue 0 ?s ''polygon_1'' = Inr (Some (Num 1))"
    using r v by simp
qed

lemma setDate_shift: "setDate tz t (getDate tz t + k) = t + k * msPerDay"
  by (simp add: setDate_def)

lemma setDate_back: "setDate tz t (getDate tz t - k) = t - k * msPerDay"
  by (simp add: setDate_def algebra_simps)


lemma getHours_bounds: "0 \<le> getHours tz t \<and> getHours tz t < 24"
proof -
  have "0 \<le> (t + tz) mod 86400000" and "(t + tz) mod 86400000 < 86400000"
    by simp_all
  then show ?thesis
    unfolding getHours_def msPerDay_def msPerHour_def by arith
qed

lemma targetDate_of_eq:
  "targetDate_of tz base h =
     (let t1 = base - 15 * msPerDay;
          t2 = t1 + (js_rem h 24 - getHours tz t1) * msPerHour;
          t3 = t2 + (h div 24) * msPerDay
      in if \<bar>base\<bar> \<le> maxTime \<and> \<bar>t1\<bar> \<le> maxTime \<and> \<bar>t2\<bar> \<le> maxTime \<and> \<bar>t3\<bar> \<le> maxTime
         then Some t3 else None)"
  by (simp add: targetDate_of_def TimeClip_def Let_def setDate_shift setDate_back setHours_def)









lemma targetDate_in_range:
  assumes "0 \<le> h" and "h \<le> 719" and "\<bar>base\<bar> \<le> maxTime - 30 * msPerDay"
  shows "targetDate_of tz base h =
     Some (base - 15 * msPerDay + (js_rem h 24 - getHours tz (base - 15 * msPerDay)) * msPerHour
           + (h div 24) * msPerDay)"
proof -
  let ?t1 = "base - 15 * msPerDay"
  let ?g = "getHours tz ?t1"
  have r: "js_rem h 24 = h mod 24"
    using assms(1) by (simp add: js_rem_def sgn_if)
  have g: "0 \<le> ?g \<and> ?g < 24" by (rule getHours_bounds)
  have m: "0 \<le> h mod 24 \<and> h mod 24 < 24" by simp
  have d: "0 \<le> h div 24 \<and> h div 24 \<le> 29" using assms(1,2) by auto
  have b1: "\<bar>base\<bar> \<le> maxTime"
    using assms(3) unfolding msPerDay_def maxTime_def by linarith
  have b2: "\<bar>?t1\<bar> \<le> maxTime"
    using assms(3) unfolding msPerDay_def maxTime_def by linarith
  have k: "- 23 \<le> h mod 24 - ?g \<and> h mod 24 - ?g \<le> 23" using g m by linarith
  then have k': "- 23 * msPerHour \<le> (h mod 24 - ?g) * msPerHour
               \<and> (h mod 24 - ?g) * msPerHour \<le> 23 * msPerHour"
    by (simp add: msPerHour_def)
  have b3: "\<bar>?t1 + (h mod 24 - ?g) * msPerHour\<bar> \<le> maxTime"
    using assms(3) k' unfolding msPerDay_def msPerHour_def maxTime_def by linarith
  have d': "0 \<le> (h div 24) * msPerDay \<and> (h div 24) * msPerDay \<le> 29 * msPerDay"
    using d by (simp add: msPerDay_def)
  have b4: "\<bar>?t1 + (h mod 24 - ?g) * msPerHour + (h div 24) * msPerDay\<bar> \<le> maxTime"
    using assms(3) k' d' unfolding msPerDay_def msPerHour_def maxTime_def by linarith
  show ?thesis
    unfolding targetDate_of_eq Let_def r using b1 b2 b3 b4 by simp
qed



lemma one_pm: "toISOString one_pm_utc_plus_8 = ''2024-05-20T05:00:00.000Z''
  \<and> getHours utc_plus_8 one_pm_utc_plus_8 = 13"
  by code_simp

text \<open>
  C5, as stated, fails: \<open>toISOString\<close> raises a RangeError on an invalid date, and the
  resolver does not catch it. With the base date at the last valid instant
  (\<open>new Date(8640000000000000)\<close>), single mode, offset 719 and a non-empty series, the
  last \<open>setDate\<close> leaves the range of dates and the resolver raises.
\<close>

theorem resolver_range_error_counterexample:
  "getPolygonCurrentValue 0 (single_mode 719 (cache_state maxTime two_point_series)) ''polygon_1''
     = Inl RangeError"
  by code_simp

text \<open>
  C5, amended. For every timeline selection, in single and in range mode, the resolver
  returns absent when the cache has no series for the polygon or holds an empty one,
  and in range mode it never raises. In single mode on a non-empty series it raises a
  RangeError exactly when the base date or one of the three dates computed from it
  (15 days back, then the hour set, then the days added) has a time value beyond
  \<open>8.64e15\<close> milliseconds in magnitude, and returns otherwise; it never raises for an
  offset from 0 to 719 and a base date at least 30 days inside that range. The
  evaluator never raises: on every value and rule set it returns the "no data" color,
  the default color or the color of one of the rules.
\<close>

theorem resolver_absent_or_range_error:
  "((weatherData s pid = None \<or> weatherData s pid = Some []) \<longrightarrow>
       getPolygonCurrentValue tz s pid = Inr None)
   \<and> (mode (timeline s) = Range \<longrightarrow> (\<exists>r. getPolygonCurrentValue tz s pid = Inr r))
   \<and> (mode (timeline s) = Single \<and> weatherData s pid = Some series \<and> series \<noteq> [] \<longrightarrow>
        (let base = baseDate (timeline s);
             h = selectedHour (timeline s);
             t1 = base - 15 * msPerDay;
             t2 = t1 + (js_rem h 24 - getHours tz t1) * msPerHour;
             t3 = t2 + (h div 24) * msPerDay
         in if \<bar>base\<bar> \<le> maxTime \<and> \<bar>t1\<bar> \<le> maxTime \<and> \<bar>t2\<bar> \<le> maxTime \<and> \<bar>t3\<bar> \<le> maxTime
            then \<exists>r. getPolygonCurrentValue tz s pid = Inr r
            else getPolygonCurrentValue tz s pid = Inl RangeError))
   \<and> (\<bar>baseDate (timeline s)\<bar> \<le> maxTime - 30 * msPerDay \<and>
       0 \<le> selectedHour (timeline s) \<and> selectedHour (timeline s) \<le> 719 \<longrightarrow>
        (\<exists>r. getPolygonCurrentValue tz s pid = Inr r))
   \<and> getPolygonColor v R \<in> {''#gray-400'', ''#94a3b8''} \<union> cr_color ` set R"
proof (intro conjI impI)
  assume "weatherData s pid = None \<or> weatherData s pid = Some []"
  then show "getPolygonCurrentValue tz s pid = Inr None"
    by (auto simp: getPolygonCurrentValue_def)
next
  assume "mode (timeline s) = Range"
  then show "\<exists>r. getPolygonCurrentValue tz s pid = Inr r"
    by (auto simp: getPolygonCurrentValue_def Let_def split: option.split prod.split)
next
  assume h: "mode (timeline s) = Single \<and> weatherData s pid = Some series \<and> series \<noteq> []"
  then show "let base = baseDate (timeline s);
             h = selectedHour (timeline s);
             t1 = base - 15 * msPerDay;
             t2 = t1 + (js_rem h 24 - getHours tz t1) * msPerHour;
             t3 = t2 + (h div 24) * msPerDay
         in if \<bar>base\<bar> \<le> maxTime \<and> \<bar>t1\<bar> \<le> maxTime \<and> \<bar>t2\<bar> \<le> maxTime \<and> \<bar>t3\<bar> \<le> maxTime
            then \<exists>r. getPolygonCurrentValue tz s pid = Inr r
            else getPolygonCurrentValue tz s pid = Inl RangeError"
    by (simp add: getPolygonCurrentValue_def targetTimestamp_of_def targetDate_of_eq Let_def)
next
  assume h: "\<bar>baseDate (timeline s)\<bar> \<le> maxTime - 30 * msPerDay \<and>
       0 \<le> selectedHour (timeline s) \<and> selectedHour (timeline s) \<le> 719"
  have "\<exists>t. targetDate_of tz (baseDate (timeline s)) (selectedHour (timeline s)) = Some t"
    using targetDate_in_range [of "selectedHour (timeline s)" "baseDate (timeline s)" tz] h
    by blast
  then show "\<exists>r. getPolygonCurrentValue tz s pid = Inr r"
    by (auto simp: getPolygonCurrentValue_def targetTimestamp_of_def Let_def
             split: option.split prod.split)
next
  show "getPolygonColor v R \<in> {''#gray-400'', ''#94a3b8''} \<union> cr_color ` set R"
    by (rule getPolygonColor_range)
qed

theorem resolver_absent_or_range_error_witness:
  "getPolygonCurrentValue 0 (initial_state afternoon [temperature_source]) ''polygon_1'' = Inr None
   \<and> getPolygonCurrentValue 0 (range_mode (350, 370) (cache_state afternoon [])) ''polygon_1''
       = Inr None
   \<and> (\<exists>r. getPolygonCurrentValue 0 (range_mode (0, 1) (cache_state maxTime two_point_series))
             ''polygon_1'' = Inr r)
   \<and> (\<exists>r. getPolygonCurrentValue utc_plus_8
             (single_mode 360 (cache_state one_pm_utc_plus_8 three_hour_series)) ''polygon_1''
           = Inr r)"
proof (intro conjI)
  let ?s = "initial_state afternoon [temperature_source]"
  have "weatherData ?s ''polygon_1'' = None \<or> weatherData ?s ''polygon_1'' = Some []"
    by (simp add: initial_state_def)
  then show "getPolygonCurrentValue 0 ?s ''polygon_1'' = Inr None"
    by (rule resolver_absent_or_range_error [THEN conjunct1, THEN mp])
next
  let ?s = "range_mode (350, 370) (cache_state afternoon [])"
  have "weatherData ?s ''polygon_1'' = None \<or> weatherData ?s ''polygon_1'' = Some []"
    by (simp add: range_mode_def cache_state_def setWeatherData_def)
  then show "getPolygonCurrentValue 0 ?s ''polygon_1'' = Inr None"
    by (rule resolver_absent_or_range_error [THEN conjunct1, THEN mp])
next
  let ?s = "range_mode (0, 1) (cache_state maxTime two_point_series)"
  have "mode (timeline ?s) = Range"
    by (simp add: range_mode_def)
  then show "\<exists>r. getPolygonCurrentValue 0 ?s ''polygon_1'' = Inr r"
    by (rule resolver_absent_or_range_error [THEN conjunct2, THEN conjunct1, THEN mp])
next
  let ?s = "single_mode 360 (cache_state one_pm_utc_plus_8 three_hour_series)"
  have "\<bar>baseDate (timeline ?s)\<bar> \<le> maxTime - 30 * msPerDay \<and>
       0 \<le> selectedHour (timeline ?s) \<and> selectedHour (timeline ?s) \<le> 719"
    by (simp add: single_mode_def cache_state_def setWeatherData_def initial_state_def
          one_pm_utc_plus_8_def maxTime_def msPerDay_def)
  then show "\<exists>r. getPolygonCurrentValue utc_plus_8 ?s ''polygon_1'' = Inr r"
    by (rule resolver_absent_or_range_error [THEN conjunct2, THEN conjunct2, THEN conjunct2, THEN conjunct1, THEN mp])
qed




section \<open>Properties of the store\<close>

text \<open>
  C8, as stated, fails: \<open>removePolygon\<close> filters the polygon list and clears the
  selection, and leaves the weather-data cache as it is. After the one polygon of the
  state is removed, the cache still holds the series keyed by its id.
\<close>

theorem removePolygon_keeps_cache_counterexample:
  "p_id unit_square_polygon = ''polygon_1''
   \<and> polygons one_polygon_state = [unit_square_polygon]
   \<and> polygons (removePolygon ''polygon_1'' one_polygon_state) = []
   \<and> weatherData (removePolygon ''polygon_1'' one_polygon_state) ''polygon_1''
       = Some two_point_series"
  by (simp add: removePolygon_def one_polygon_state_def setWeatherData_def initial_state_def
        unit_square_polygon_def)

text \<open>
  C8, amended. After \<open>removePolygon(id)\<close> the polygon list holds exactly the former
  polygons with another id, so none with that id, and the selection is not that id;
  the weather-data cache is unchanged, so an entry keyed by that id stays in it.
\<close>

theorem removePolygon_effect:
  "i \<notin> p_id ` set (polygons (removePolygon i s))
   \<and> set (polygons (removePolygon i s)) = {p \<in> set (polygons s). p_id p \<noteq> i}
   \<and> selectedPolygonId (removePolygon i s) \<noteq> Some i
   \<and> weatherData (removePolygon i s) = weatherData s"
  by (auto simp: removePolygon_def)

section \<open>Properties of the geometry helpers\<close>

lemma math_min_Min: "xs \<noteq> [] \<Longrightarrow> math_min xs = Num (Min (set xs))"
proof (induction xs)
  case Nil then show ?case by simp
next
  case (Cons x xs)
  show ?case
  proof (cases xs)
    case Nil then show ?thesis by simp
  next
    case (Cons y ys)
    then have "math_min xs = Num (Min (set xs))" using Cons.IH by simp
    then show ?thesis using Cons by simp
  qed
qed

lemma math_max_Max: "xs \<noteq> [] \<Longrightarrow> math_max xs = Num (Max (set xs))"
proof (induction xs)
  case Nil then show ?case by simp
next
  case (Cons x xs)
  show ?case
  proof (cases xs)
    case Nil then show ?thesis by simp
  next
    case (Cons y ys)
    then have "math_max xs = Num (Max (set xs))" using Cons.IH by simp
    then show ?thesis using Cons by simp
  qed
qed


text \<open>
  C9, as stated, fails for the centroid: the code adds and divides doubles, and each
  step rounds. For the points \<open>[[1,0],[1,0],[0,0]]\<close> the latitude of the centroid is
  \<open>6004799503160661 / 2^53\<close> (printed \<open>0.6666666666666666\<close>), not the arithmetic mean
  \<open>2/3\<close>.
\<close>

theorem centroid_rounding_counterexample:
  "calculateCentroid [(1, 0), (1, 0), (0, 0)] = (Num (6004799503160661 / 9007199254740992), Num 0)
   \<and> (6004799503160661 / 9007199254740992 :: real) \<noteq> (1 + 1 + 0) / 3"
  by (simp add: calculateCentroid_def fl_0 fl_1 fl_2 fl_two_thirds)

text \<open>
  C9, amended. On a non-empty point list the centroid is the pair of the means of the
  latitudes and of the longitudes in double arithmetic: the values are added from left
  to right, starting from 0, and the sum is divided by their count, each step rounded
  to the nearest double; each is the exact arithmetic mean whenever no step rounds.
  The bounding box holds the minimum and the maximum of each axis. For the square
  \<open>[[0,0],[0,2],[2,2],[2,0]]\<close> the centroid is \<open>(1, 1)\<close> and the box is
  \<open>{minLat: 0, maxLat: 2, minLng: 0, maxLng: 2}\<close>.
\<close>

theorem centroid_and_boundingBox:
  "(points \<noteq> [] \<longrightarrow>
      calculateCentroid points = (double_mean (map fst points), double_mean (map snd points))
      \<and> calculateBoundingBox points =
        \<lparr>minLat = Num (Min (fst ` set points)), maxLat = Num (Max (fst ` set points)),
         minLng = Num (Min (snd ` set points)), maxLng = Num (Max (snd ` set points))\<rparr>)
   \<and> (points \<noteq> [] \<and> mean_exact (map fst points) \<longrightarrow>
        fst (calculateCentroid points) = Num (sum_list (map fst points) / real (length points)))
   \<and> (points \<noteq> [] \<and> mean_exact (map snd points) \<longrightarrow>
        snd (calculateCentroid points) = Num (sum_list (map snd points) / real (length points)))
   \<and> calculateCentroid [(0, 0), (0, 2), (2, 2), (2, 0)] = (Num 1, Num 1)
   \<and> calculateBoundingBox [(0, 0), (0, 2), (2, 2), (2, 0)] =
        \<lparr>minLat = Num 0, maxLat = Num 2, minLng = Num 0, maxLng = Num 2\<rparr>"
proof (intro conjI impI)
  assume ne: "points \<noteq> []"
  show "calculateCentroid points = (double_mean (map fst points), double_mean (map snd points))"
    by (rule calculateCentroid_double_mean)
  have l: "(\<lambda>(lat, lng). lat) = (fst :: real \<times> real \<Rightarrow> real)"
    and r: "(\<lambda>(lat, lng). lng) = (snd :: real \<times> real \<Rightarrow> real)"
    by auto
  show "calculateBoundingBox points =
        \<lparr>minLat = Num (Min (fst ` set points)), maxLat = Num (Max (fst ` set points)),
         minLng = Num (Min (snd ` set points)), maxLng = Num (Max (snd ` set points))\<rparr>"
    using ne by (simp add: calculateBoundingBox_def l r math_min_Min math_max_Max)
next
  assume h: "points \<noteq> [] \<and> mean_exact (map fst points)"
  then have "double_mean (map fst points)
             = Num (sum_list (map fst points) / real (length (map fst points)))"
    by (intro double_mean_exact) simp_all
  then show "fst (calculateCentroid points) = Num (sum_list (map fst points) / real (length points))"
    by (simp add: calculateCentroid_double_mean)
next
  assume h: "points \<noteq> [] \<and> mean_exact (map snd points)"
  then have "double_mean (map snd points)
             = Num (sum_list (map snd points) / real (length (map snd points)))"
    by (intro double_mean_exact) simp_all
  then show "snd (calculateCentroid points) = Num (sum_list (map snd points) / real (length points))"
    by (simp add: calculateCentroid_double_mean)
next
  show "calculateCentroid [(0, 0), (0, 2), (2, 2), (2, 0)] = (Num 1, Num 1)"
    by (simp add: calculateCentroid_def fl_0 fl_1 fl_2 fl_4)
  show "calculateBoundingBox [(0, 0), (0, 2), (2, 2), (2, 0)] =
        \<lparr>minLat = Num 0, maxLat = Num 2, minLng = Num 0, maxLng = Num 2\<rparr>"
    by (simp add: calculateBoundingBox_def)
qed

theorem centroid_and_boundingBox_witness:
  "calculateCentroid [(1, 5), (3, 7)] = (Num 2, Num 6)
   \<and> calculateBoundingBox [(1, 5), (3, 7)] =
        \<lparr>minLat = Num 1, maxLat = Num 3, minLng = Num 5, maxLng = Num 7\<rparr>"
proof -
  let ?pts = "[(1, 5), (3, 7)] :: (real \<times> real) list"
  note t = centroid_and_boundingBox [of ?pts]
  have ne: "?pts \<noteq> []" by simp
  have hx: "?pts \<noteq> [] \<and> mean_exact (map fst ?pts)"
    by (simp add: mean_exact_def fl_1 fl_4 fl_2)
  have hy: "?pts \<noteq> [] \<and> mean_exact (map snd ?pts)"
    by (simp add: mean_exact_def fl_5 fl_12 fl_6)
  have a: "fst (calculateCentroid ?pts) = Num (sum_list (map fst ?pts) / real (length ?pts))"
    using t hx by blast
  have b: "snd (calculateCentroid ?pts) = Num (sum_list (map snd ?pts) / real (length ?pts))"
    using t hy by blast
  have c: "calculateBoundingBox ?pts =
        \<lparr>minLat = Num (Min (fst ` set ?pts)), maxLat = Num (Max (fst ` set ?pts)),
         minLng = Num (Min (snd ` set ?pts)), maxLng = Num (Max (snd ` set ?pts))\<rparr>"
    using t ne by blast
  have "calculateCentroid ?pts = (Num 2, Num 6)"
    using a b by (simp add: prod_eq_iff)
  then show ?thesis using c by simp
qed

section \<open>Properties of the response adapter\<close>

lemma falsy_iff: "\<not> truthy x \<longleftrightarrow> x \<in> {JUndefined, JNull, JNum NaN, JNum (Num 0)}"
proof (cases x)
  case (JNum n)
  then show ?thesis by (cases n) auto
qed auto

lemma js_or_zero:
  "js_or (array_get valueArray i) (JNum (Num 0)) =
     (if i < length valueArray \<and> valueArray ! i \<notin> {JUndefined, JNull, JNum NaN, JNum (Num 0)}
      then valueArray ! i else JNum (Num 0))"
  using falsy_iff [of "valueArray ! i"] by (auto simp: js_or_def array_get_def)

text \<open>
  C10, as stated, fails: a response whose \<open>hourly\<close> object has a time array and no
  array for the requested field makes the first read \<open>valueArray[index]\<close> raise a
  TypeError, and no point is produced.
\<close>

theorem transformWeatherData_missing_array_counterexample:
  "transformWeatherData ''polygon_1''
     \<lparr>hourly_time = Some [''2024-05-20T00:00''], hourly = Map.empty\<rparr> ''temperature_2m''
   = Inl TypeError"
  by (simp add: transformWeatherData_def)

text \<open>
  C10, amended. When the response holds a time array and an array for the requested
  field, the adapter returns one point per entry of the time array, in the same order
  and with the polygon's id; the point at position \<open>i\<close> pairs the timestamp at \<open>i\<close>
  with the entry of the value array at \<open>i\<close>, replaced by 0 when \<open>i\<close> is past the end of
  the value array or the entry is falsy (\<open>undefined\<close>, \<open>null\<close>, \<open>NaN\<close>, or the reading
  0). No produced value is \<open>null\<close>, \<open>undefined\<close> or \<open>NaN\<close>, also when the value array
  is shorter than the time array. Without an array for the field the adapter raises a
  TypeError, unless the time array is empty and the result is the empty list;
  without a time array it raises a TypeError.
\<close>

theorem transformWeatherData_zips_by_position:
  "(hourly_time response = Some timeArray \<and> hourly response field = Some valueArray \<longrightarrow>
     (\<exists>out. transformWeatherData pid response field = Inr out
        \<and> length out = length timeArray
        \<and> map wd_timestamp out = timeArray
        \<and> (\<forall>i < length out.
              wd_polygonId (out ! i) = pid
              \<and> wd_timestamp (out ! i) = timeArray ! i
              \<and> wd_value (out ! i) =
                  (if i < length valueArray \<and>
                      valueArray ! i \<notin> {JUndefined, JNull, JNum NaN, JNum (Num 0)}
                   then valueArray ! i else JNum (Num 0))
              \<and> wd_value (out ! i) \<notin> {JNull, JUndefined, JNum NaN})))
   \<and> (hourly_time response = Some timeArray \<and> hourly response field = None \<longrightarrow>
        transformWeatherData pid response field = (if timeArray = [] then Inr [] else Inl TypeError))
   \<and> (hourly_time response = None \<longrightarrow> transformWeatherData pid response field = Inl TypeError)"
proof (intro conjI impI)
  assume h: "hourly_time response = Some timeArray \<and> hourly response field = Some valueArray"
  let ?out = "map (\<lambda>(timestamp, index).
                        \<lparr>wd_polygonId = pid, wd_timestamp = timestamp,
                         wd_value = js_or (array_get valueArray index) (JNum (Num 0))\<rparr>)
                     (zip timeArray [0..<length timeArray])"
  have r: "transformWeatherData pid response field = Inr ?out"
    using h by (simp add: transformWeatherData_def)
  have len: "length ?out = length timeArray" by simp
  have ts: "map wd_timestamp ?out = timeArray"
    by (rule nth_equalityI) simp_all
  have el: "\<forall>i < length ?out.
              wd_polygonId (?out ! i) = pid
              \<and> wd_timestamp (?out ! i) = timeArray ! i
              \<and> wd_value (?out ! i) =
                  (if i < length valueArray \<and>
                      valueArray ! i \<notin> {JUndefined, JNull, JNum NaN, JNum (Num 0)}
                   then valueArray ! i else JNum (Num 0))
              \<and> wd_value (?out ! i) \<notin> {JNull, JUndefined, JNum NaN}"
  proof (intro allI impI)
    fix i assume "i < length ?out"
    then have i: "i < length timeArray" by simp
    then have v: "wd_value (?out ! i) = js_or (array_get valueArray i) (JNum (Num 0))"
      and p: "wd_polygonId (?out ! i) = pid"
      and t: "wd_timestamp (?out ! i) = timeArray ! i"
      by simp_all
    have a: "js_or (array_get valueArray i) (JNum (Num 0)) =
                  (if i < length valueArray \<and>
                      valueArray ! i \<notin> {JUndefined, JNull, JNum NaN, JNum (Num 0)}
                   then valueArray ! i else JNum (Num 0))"
      by (rule js_or_zero)
    have b: "js_or (array_get valueArray i) (JNum (Num 0)) \<notin> {JNull, JUndefined, JNum NaN}"
      unfolding a by auto
    show "wd_polygonId (?out ! i) = pid
              \<and> wd_timestamp (?out ! i) = timeArray ! i
              \<and> wd_value (?out ! i) =
                  (if i < length valueArray \<and>
                      valueArray ! i \<notin> {JUndefined, JNull, JNum NaN, JNum (Num 0)}
                   then valueArray ! i else JNum (Num 0))
              \<and> wd_value (?out ! i) \<notin> {JNull, JUndefined, JNum NaN}"
      using p t a b unfolding v by blast
  qed
  show "\<exists>out. transformWeatherData pid response field = Inr out
        \<and> length out = length timeArray
        \<and> map wd_timestamp out = timeArray
        \<and> (\<forall>i < length out.
              wd_polygonId (out ! i) = pid
              \<and> wd_timestamp (out ! i) = timeArray ! i
              \<and> wd_value (out ! i) =
                  (if i < length valueArray \<and>
                      valueArray ! i \<notin> {JUndefined, JNull, JNum NaN, JNum (Num 0)}
                   then valueArray ! i else JNum (Num 0))
              \<and> wd_value (out ! i) \<notin> {JNull, JUndefined, JNum NaN})"
    using r len ts el by blast
next
  assume "hourly_time response = Some timeArray \<and> hourly response field = None"
  then show "transformWeatherData pid response field
             = (if timeArray = [] then Inr [] else Inl TypeError)"
    by (simp add: transformWeatherData_def)
next
  assume "hourly_time response = None"
  then show "transformWeatherData pid response field = Inl TypeError"
    by (simp add: transformWeatherData_def)
qed

theorem transformWeatherData_zips_by_position_witness:
  "transformWeatherData ''polygon_1''
     \<lparr>hourly_time = Some [''2024-05-20T00:00'', ''2024-05-20T01:00'', ''2024-05-20T02:00'',
                     ''2024-05-20T03:00''],
      hourly = [''temperature_2m'' \<mapsto> [JNum (Num 12), JNull, JNum (Num 7)]]\<rparr>
     ''temperature_2m''
   = Inr [\<lparr>wd_polygonId = ''polygon_1'', wd_timestamp = ''2024-05-20T00:00'', wd_value = JNum (Num 12)\<rparr>,
          \<lparr>wd_polygonId = ''polygon_1'', wd_timestamp = ''2024-05-20T01:00'', wd_value = JNum (Num 0)\<rparr>,
          \<lparr>wd_polygonId = ''polygon_1'', wd_timestamp = ''2024-05-20T02:00'', wd_value = JNum (Num 7)\<rparr>,
          \<lparr>wd_polygonId = ''polygon_1'', wd_timestamp = ''2024-05-20T03:00'', wd_value = JNum (Num 0)\<rparr>]"
proof -
  let ?ta = "[''2024-05-20T00:00'', ''2024-05-20T01:00'', ''2024-05-20T02:00'', ''2024-05-20T03:00'']"
  let ?vs = "[JNum (Num 12), JNull, JNum (Num 7)]"
  let ?resp = "\<lparr>hourly_time = Some ?ta, hourly = [''temperature_2m'' \<mapsto> ?vs]\<rparr>"
  have h: "hourly_time ?resp = Some ?ta \<and> hourly ?resp ''temperature_2m'' = Some ?vs" by simp
  obtain out where r: "transformWeatherData ''polygon_1'' ?resp ''temperature_2m'' = Inr out"
    and len: "length out = length ?ta"
    and el: "\<forall>i < length out.
              wd_polygonId (out ! i) = ''polygon_1''
              \<and> wd_timestamp (out ! i) = ?ta ! i
              \<and> wd_value (out ! i) =
                  (if i < length ?vs \<and> ?vs ! i \<notin> {JUndefined, JNull, JNum NaN, JNum (Num 0)}
                   then ?vs ! i else JNum (Num 0))
              \<and> wd_value (out ! i) \<notin> {JNull, JUndefined, JNum NaN}"
    using transformWeatherData_zips_by_position [of ?resp ?ta "''temperature_2m''" ?vs "''polygon_1''"] h by blast
  have l4: "length out = 4" using len by simp
  then obtain a b c d where out: "out = [a, b, c, d]"
    by (auto simp: length_Suc_conv eval_nat_numeral)
  have e0: "wd_polygonId a = ''polygon_1'' \<and> wd_timestamp a = ''2024-05-20T00:00''
            \<and> wd_value a = JNum (Num 12)"
    using el [rule_format, of 0] out by simp
  have e1: "wd_polygonId b = ''polygon_1'' \<and> wd_timestamp b = ''2024-05-20T01:00''
            \<and> wd_value b = JNum (Num 0)"
    using el [rule_format, of 1] out by simp
  have e2: "wd_polygonId c = ''polygon_1'' \<and> wd_timestamp c = ''2024-05-20T02:00''
            \<and> wd_value c = JNum (Num 7)"
    using el [rule_format, of 2] out by simp
  have e3: "wd_polygonId d = ''polygon_1'' \<and> wd_timestamp d = ''2024-05-20T03:00''
            \<and> wd_value d = JNum (Num 0)"
    using el [rule_format, of 3] out by simp
  show ?thesis
    unfolding r out using e0 e1 e2 e3 by simp
qed

section \<open>Properties of the fetch paths\<close>

lemma isValidDateForAPI_iff:
  "isValidDateForAPI now date \<longleftrightarrow> minDate \<le> date \<and> date \<le> now - 5 * msPerDay"
  by (auto simp: isValidDateForAPI_def msPerDay_def Let_def)

lemma minDate_is_1940: "toISOString minDate = ''1940-01-01T00:00:00.000Z''"
  by code_simp

lemma dashboard_path_validates:
  assumes "fetchWeatherDataForAllPolygons tz now s \<noteq> []"
  shows "isValidDateForAPI now (fst (getDateRange tz (baseDate (timeline s))))
       \<and> isValidDateForAPI now (snd (getDateRange tz (baseDate (timeline s))))"
  using assms
  by (auto simp: fetchWeatherDataForAllPolygons_def split: if_splits prod.splits)

lemma getDateRange_shift: "getDateRange tz base = (base - 15 * msPerDay, base + 15 * msPerDay)"
  by (simp add: getDateRange_def setDate_def)

lemma dashboard_path_sends_nothing_now:
  "fetchWeatherDataForAllPolygons 0 afternoon one_polygon_state = []"
  by (simp add: fetchWeatherDataForAllPolygons_def one_polygon_state_def setWeatherData_def
        initial_state_def getDateRange_shift isValidDateForAPI_def afternoon_def msPerDay_def)

text \<open>
  C7. The predicate is the window of the specification: true exactly from 1940-01-01T00:00Z to
  five days before now (lemmas \<open>isValidDateForAPI_iff\<close>, \<open>minDate_is_1940\<close>), and the
  dashboard's path sends a request only when both ends of the range pass it (lemma
  \<open>dashboard_path_validates\<close>). The map component's path, taken when a polygon is
  created, never calls the predicate: with the base date at the current time it sends
  a request whose end date, 15 days after now, lies outside the window, where the
  dashboard's path sends none (lemma \<open>dashboard_path_sends_nothing_now\<close>).
\<close>

theorem map_component_fetch_skips_date_window:
  "fetchWeatherDataForPolygon 0 (initial_state afternoon [temperature_source]) ''polygon_1''
        (Num 1, Num 1) ''temperature''
      = [\<lparr>q_latitude = Num 1, q_longitude = Num 1, q_start_date = ''2024-05-05'',
          q_end_date = ''2024-06-04'', q_hourly = ''temperature_2m'', q_timezone = ''UTC''\<rparr>]
   \<and> getDateRange 0 afternoon = (afternoon - 15 * msPerDay, afternoon + 15 * msPerDay)
   \<and> \<not> isValidDateForAPI afternoon (afternoon + 15 * msPerDay)"
  by code_simp


end
